theory Spec2Isabelle
  imports Complex_Main "HOL-Library.Sublist"
begin

section \<open>Strings\<close>

text \<open>
  A TypeScript string is modelled as a \<^typ>\<open>string\<close>, one \<^typ>\<open>char\<close> per code unit, which
  covers the code units U+0000 to U+00FF. On that range \<open>String.prototype.toLowerCase\<close> moves
  the letters A-Z and the Latin-1 capitals U+00C0 to U+00DE (U+00D7, the multiplication sign,
  apart) up by 32 and leaves every other code unit alone.
\<close>

definition lower_char :: "char \<Rightarrow> char" where
  "lower_char c =
     (let n = (of_char c :: nat)
      in if (65 \<le> n \<and> n \<le> 90) \<or> (192 \<le> n \<and> n \<le> 222 \<and> n \<noteq> 215)
         then char_of (n + 32) else c)"

definition toLowerCase :: "string \<Rightarrow> string" where
  "toLowerCase s = map lower_char s"

text \<open>\<open>s.includes(t)\<close>: \<open>t\<close> occurs in \<open>s\<close> as a contiguous run (the empty string always does).\<close>

fun includes_str :: "string \<Rightarrow> string \<Rightarrow> bool" where
  "includes_str [] t = (t = [])"
| "includes_str (c # s) t = (prefix t (c # s) \<or> includes_str s t)"

text \<open>
  \<open>s.replace(/pat/g, rep)\<close> for a pattern that is one fixed non-empty run of characters,
  without groups, and a replacement that is inserted as it stands: every occurrence, found from
  left to right, the search resuming behind the occurrence just replaced. The replacements of
  the module are words, digits and the formatted amount; the \<open>$\<close> of the amount stands before
  a digit, which is no reference when the pattern has no group.
\<close>

fun replace_all :: "string \<Rightarrow> string \<Rightarrow> string \<Rightarrow> string" where
  "replace_all pat rep [] = []"
| "replace_all pat rep (c # s) =
     (if pat \<noteq> [] \<and> prefix pat (c # s)
      then rep @ replace_all pat rep (drop (length pat - 1) s)
      else c # replace_all pat rep s)"

text \<open>\<open>xs.join(sep)\<close> on an array of strings.\<close>

fun join :: "string \<Rightarrow> string list \<Rightarrow> string" where
  "join sep [] = []"
| "join sep [x] = x"
| "join sep (x # y # ys) = x @ sep @ join sep (y # ys)"

text \<open>
  Adding the elements of an array one by one to a collection that keeps insertion order and
  ignores an element it already holds: \<open>new Set(xs)\<close> from the empty collection, and the
  \<open>includes\<close>/\<open>push\<close> loop of \<open>formatResponse\<close> from a given one.
\<close>

definition push_new :: "'a list \<Rightarrow> 'a list \<Rightarrow> 'a list" where
  "push_new acc xs = foldl (\<lambda>a x. if x \<in> set a then a else a @ [x]) acc xs"

text \<open>The character classes \<open>\d\<close>, \<open>\w\<close> and \<open>\s\<close> of a regular expression without flags.\<close>

definition is_digit :: "char \<Rightarrow> bool" where
  "is_digit c = (c \<in> set ''0123456789'')"

definition is_word_char :: "char \<Rightarrow> bool" where
  "is_word_char c =
     (c \<in> set ''abcdefghijklmnopqrstuvwxyzABCDEFGHIJKLMNOPQRSTUVWXYZ0123456789_'')"

definition is_space :: "char \<Rightarrow> bool" where
  "is_space c = ((of_char c :: nat) \<in> {9, 10, 11, 12, 13, 32, 160})"

text \<open>\<open>\b\<close> behind a word character: the text ends or goes on with a non-word character.\<close>

definition word_ends :: "string \<Rightarrow> bool" where
  "word_ends rest = (case rest of [] \<Rightarrow> True | c # _ \<Rightarrow> \<not> is_word_char c)"

text \<open>
  Numbers. The amounts and ages of the module are non-negative whole numbers, modelled as
  \<^typ>\<open>nat\<close>; the rounding of IEEE doubles above \<open>2^53\<close> and the exponent notation of
  \<open>String(n)\<close> from \<open>10^21\<close> on are outside the model. \<open>parseFloat\<close> and \<open>parseInt\<close> are only
  applied to runs of decimal digits, where the empty run gives \<open>NaN\<close> (\<open>None\<close>).
\<close>

definition digit_value :: "char \<Rightarrow> nat" where
  "digit_value c = of_char c - 48"

definition parse_digits :: "string \<Rightarrow> nat option" where
  "parse_digits ds =
     (if ds = [] then None else Some (foldl (\<lambda>n c. 10 * n + digit_value c) 0 ds))"

fun string_of_nat :: "nat \<Rightarrow> string" where
  "string_of_nat n =
     (if n < 10 then [''0123456789'' ! n]
      else string_of_nat (n div 10) @ [''0123456789'' ! (n mod 10)])"

text \<open>
  \<open>Intl.NumberFormat('en-US', {style: 'currency', currency: 'USD', maximumFractionDigits: 0})\<close>
  on a whole number: a dollar sign and the decimal digits in groups of three.
\<close>

fun group_thousands :: "nat \<Rightarrow> string" where
  "group_thousands n =
     (if n < 1000 then string_of_nat n
      else group_thousands (n div 1000) @ '','' @
           [''0123456789'' ! (n div 100 mod 10), ''0123456789'' ! (n div 10 mod 10),
            ''0123456789'' ! (n mod 10)])"

definition format_usd :: "nat \<Rightarrow> string" where
  "format_usd n = ''$'' @ group_thousands n"

text \<open>
  A JavaScript number is an IEEE 754 double. A finite double is modelled by the real number it
  stands for, and every operation rounds its exact result to the nearest double, a tie going
  to the even significand of 53 bits. \<open>binade fuel x\<close> is the binary exponent \<open>e\<close> of a
  positive \<open>x\<close>, \<open>2^e \<le> x < 2^(e + 1)\<close>, found in at most \<open>fuel\<close> halvings or doublings; the
  exponents of the normal doubles lie between -1022 and 1023. Overflow and the subnormal
  doubles are outside the model: every value computed below lies between 0.05 and 1.
\<close>

definition pow2 :: "int \<Rightarrow> real" where
  "pow2 k = (if 0 \<le> k then 2 ^ nat k else 1 / 2 ^ nat (- k))"

fun binade :: "nat \<Rightarrow> real \<Rightarrow> int" where
  "binade 0 x = 0"
| "binade (Suc fuel) x =
     (if 2 \<le> x then binade fuel (x / 2) + 1
      else if x < 1 then binade fuel (x * 2) - 1
      else 0)"

definition round_half_even :: "real \<Rightarrow> int" where
  "round_half_even x =
     (let f = \<lfloor>x\<rfloor>; r = x - of_int f
      in if r < 1 / 2 then f
         else if 1 / 2 < r then f + 1
         else if even f then f else f + 1)"

definition to_double :: "real \<Rightarrow> real" where
  "to_double x =
     (if x = 0 then 0
      else
        (let a = \<bar>x\<bar>;
             ulp = pow2 (binade 1100 a - 52)
         in sgn x * (of_int (round_half_even (a / ulp)) * ulp)))"

section \<open>Types of the insurance module\<close>

datatype QuestionCategory = Basic | Health | Policy | Claims

text \<open>The policy types and health notes that the context extractor writes into a context.\<close>

datatype PolicyType = Term | Whole | Universal | Variable

datatype HealthStatus = PreExistingCondition | Smoker | GoodHealth

record KnowledgeBaseEntry =
  kb_term :: string
  kb_definition :: string
  kb_category :: QuestionCategory
  kb_relatedTerms :: "string list"

record InsuranceDefinition =
  def_term :: string
  def_definition :: string
  def_category :: string

record PolicyTypeInfo =
  pt_name :: string
  pt_description :: string
  pt_features :: "string list"
  pt_bestFor :: "string list"

text \<open>
  The context object \<open>{category, policyType?, coverageAmount?, age?, healthStatus?}\<close>; an
  absent key is \<open>None\<close>. The keys are created in the order of the fields.
\<close>

record ExtractedContext =
  ctx_category :: QuestionCategory
  policyType :: "PolicyType option"
  coverageAmount :: "nat option"
  age :: "nat option"
  healthStatus :: "HealthStatus option"

text \<open>\<open>String(value)\<close> for the values of a context.\<close>

fun category_string :: "QuestionCategory \<Rightarrow> string" where
  "category_string Basic = ''basic''"
| "category_string Health = ''health''"
| "category_string Policy = ''policy''"
| "category_string Claims = ''claims''"

fun policyType_string :: "PolicyType \<Rightarrow> string" where
  "policyType_string Term = ''term''"
| "policyType_string Whole = ''whole''"
| "policyType_string Universal = ''universal''"
| "policyType_string Variable = ''variable''"

fun healthStatus_string :: "HealthStatus \<Rightarrow> string" where
  "healthStatus_string PreExistingCondition = ''pre-existing condition''"
| "healthStatus_string Smoker = ''smoker''"
| "healthStatus_string GoodHealth = ''good health''"

text \<open>
  Thrown values: a \<open>TypeError\<close>, any other \<open>Error\<close>, and a thrown value that is no \<open>Error\<close>
  object. A computation that may throw, or a promise that may reject, has a result of type
  \<open>js_error + 'a\<close>.
\<close>

datatype js_error = TypeError string | Error string | Thrown string

section \<open>The knowledge base\<close>

definition entries :: "KnowledgeBaseEntry list" where
  "entries =
   [\<lparr>kb_term = ''term life insurance'',
       kb_definition = ''Insurance that provides coverage for a specific period (term), typically 10, 20, or 30 years, with level premiums and no cash value component.'',
       kb_category = Basic,
       kb_relatedTerms = [''whole life insurance'', ''premium'', ''death benefit'']\<rparr>,
      \<lparr>kb_term = ''whole life insurance'',
       kb_definition = ''Permanent life insurance that provides coverage for your entire life, includes a cash value component, and typically has fixed premiums.'',
       kb_category = Basic,
       kb_relatedTerms = [''term life insurance'', ''cash value'', ''permanent insurance'']\<rparr>,
      \<lparr>kb_term = ''universal life insurance'',
       kb_definition = ''A type of permanent life insurance with flexible premiums and death benefits, where the cash value earns interest based on current market rates.'',
       kb_category = Basic,
       kb_relatedTerms = [''variable life insurance'', ''whole life insurance'', ''cash value'']\<rparr>,
      \<lparr>kb_term = ''medical underwriting'',
       kb_definition = ''The process insurers use to evaluate your health status, medical history, and other factors to determine risk and set premium rates.'',
       kb_category = Health,
       kb_relatedTerms = [''medical exam'', ''no-exam insurance'', ''risk classification'']\<rparr>,
      \<lparr>kb_term = ''pre-existing condition'',
       kb_definition = ''A health condition that existed before applying for insurance, which may affect eligibility, premium rates, or coverage limitations.'',
       kb_category = Health,
       kb_relatedTerms = [''exclusions'', ''medical underwriting'', ''guaranteed issue'']\<rparr>,
      \<lparr>kb_term = ''premium'',
       kb_definition = ''The amount paid to the insurance company to maintain coverage, which can be paid monthly, quarterly, semi-annually, or annually.'',
       kb_category = Policy,
       kb_relatedTerms = [''policy fee'', ''rate class'', ''payment mode'']\<rparr>,
      \<lparr>kb_term = ''death benefit'',
       kb_definition = ''The amount of money paid to beneficiaries upon the insured person's death, which is generally income tax-free.'',
       kb_category = Policy,
       kb_relatedTerms = [''beneficiary'', ''face value'', ''payout'']\<rparr>,
      \<lparr>kb_term = ''claim process'',
       kb_definition = ''The procedure beneficiaries follow to receive the death benefit, which typically involves submitting a death certificate and claim form.'',
       kb_category = Claims,
       kb_relatedTerms = [''beneficiary'', ''death benefit'', ''contestability period'']\<rparr>]"

text \<open>The sentence returned for a topic without an entry.\<close>

definition no_information :: "string \<Rightarrow> string" where
  \<open>no_information topic =
     ''I don't have specific information about "'' @ topic @
     ''" in my knowledge base. Would you like to know about term life insurance, whole life insurance, or another insurance topic?''\<close>

text \<open>
  \<open>findRelevantInformation\<close> over a table \<open>es\<close>: \<open>find\<close> for the exact match, \<open>filter\<close> and the
  element at index 0 for the partial one.
\<close>

definition findRelevantInformation_in :: "KnowledgeBaseEntry list \<Rightarrow> string \<Rightarrow> string" where
  "findRelevantInformation_in es topic =
     (case List.find (\<lambda>entry. toLowerCase (kb_term entry) = toLowerCase topic) es of
        Some exactMatch \<Rightarrow> kb_definition exactMatch
      | None \<Rightarrow>
          (let partialMatches =
                 filter (\<lambda>entry.
                    includes_str (toLowerCase topic) (toLowerCase (kb_term entry)) \<or>
                    includes_str (toLowerCase (kb_term entry)) (toLowerCase topic)) es
           in if length partialMatches > 0 then kb_definition (hd partialMatches)
              else no_information topic))"

definition findRelevantInformation :: "string \<Rightarrow> string" where
  "findRelevantInformation topic = findRelevantInformation_in entries topic"

definition getSuggestedQuestions :: "string \<Rightarrow> string list" where
  "getSuggestedQuestions context =
     (let relatedEntries =
            filter (\<lambda>entry. includes_str (toLowerCase context) (toLowerCase (kb_term entry)))
              entries
      in if length relatedEntries > 0
         then take 3 (map (\<lambda>t.
                 (case List.find (\<lambda>e. toLowerCase (kb_term e) = toLowerCase t) entries of
                    Some matchingEntry \<Rightarrow> ''What is '' @ t @ ''?''
                  | None \<Rightarrow> ''Can you tell me about '' @ t @ ''?''))
               (kb_relatedTerms (hd relatedEntries)))
         else [''What's the difference between term and whole life insurance?'',
               ''How much coverage do I need?'',
               ''How do I file a claim?''])"

definition getRelatedTopics :: "string \<Rightarrow> string list" where
  "getRelatedTopics context =
     (let relatedEntries =
            filter (\<lambda>entry. includes_str (toLowerCase context) (toLowerCase (kb_term entry)))
              entries
      in if length relatedEntries > 0 then take 3 (kb_relatedTerms (hd relatedEntries))
         else [])"

text \<open>
  The class \<open>KnowledgeBase\<close> has the members \<open>findRelevantInformation\<close>,
  \<open>getSuggestedQuestions\<close>, \<open>getRelatedTopics\<close> and \<open>search\<close>, and no member \<open>getAllTerms\<close>:
  the call \<open>this.knowledgeBase.getAllTerms()\<close> of the response generator calls \<open>undefined\<close>
  and throws a \<open>TypeError\<close>.
\<close>

definition getAllTerms :: "js_error + string list" where
  "getAllTerms = Inl (TypeError ''this.knowledgeBase.getAllTerms is not a function'')"

definition insuranceTerms :: "InsuranceDefinition list" where
  "insuranceTerms =
   [\<lparr>def_term = ''Premium'', def_definition = ''The amount paid regularly to maintain insurance coverage'', def_category = ''basics''\<rparr>,
      \<lparr>def_term = ''Death Benefit'', def_definition = ''The amount paid to beneficiaries upon the insured person's death'', def_category = ''benefits''\<rparr>,
      \<lparr>def_term = ''Beneficiary'', def_definition = ''The person or entity designated to receive the insurance payout'', def_category = ''basics''\<rparr>,
      \<lparr>def_term = ''Underwriting'', def_definition = ''The process of evaluating risk to determine premium rates'', def_category = ''process''\<rparr>,
      \<lparr>def_term = ''Cash Value'', def_definition = ''The savings component of permanent life insurance policies'', def_category = ''features''\<rparr>]"

definition policyTypes :: "PolicyTypeInfo list" where
  "policyTypes =
   [\<lparr>pt_name = ''Term Life Insurance'',
       pt_description = ''Coverage for a specific period, typically 10-30 years'',
       pt_features = [''Lower premiums'', ''Fixed death benefit'', ''No cash value component'',
                      ''Convertible to permanent insurance''],
       pt_bestFor = [''Temporary coverage needs'', ''Budget-conscious individuals'',
                     ''Young families'', ''Mortgage protection'']\<rparr>,
    \<lparr>pt_name = ''Whole Life Insurance'',
       pt_description = ''Permanent coverage that lasts your entire life'',
       pt_features = [''Guaranteed death benefit'', ''Builds cash value'', ''Fixed premiums'',
                      ''Dividend potential''],
       pt_bestFor = [''Lifetime coverage needs'', ''Estate planning'', ''Business succession'',
                     ''Long-term savings goals'']\<rparr>]"

definition commonQuestions_coverage :: "string list" where
  "commonQuestions_coverage =
     [''How much coverage do I need?'',
      ''What factors determine my coverage amount?'',
      ''Can I change my coverage amount later?'']"

definition commonQuestions_healthRelated :: "string list" where
  "commonQuestions_healthRelated =
     [''Do I need a medical exam?'',
      ''How do pre-existing conditions affect my policy?'',
      ''What health factors impact my premium?'']"

definition commonQuestions_claims :: "string list" where
  "commonQuestions_claims =
     [''How do I file a claim?'',
      ''What documents are needed for a claim?'',
      ''How long does claim processing take?'']"

definition findPolicyType :: "string \<Rightarrow> PolicyTypeInfo option" where
  "findPolicyType name =
     List.find (\<lambda>policy. toLowerCase (pt_name policy) = toLowerCase name) policyTypes"

definition findTerm :: "string \<Rightarrow> InsuranceDefinition option" where
  "findTerm searchTerm =
     List.find (\<lambda>t. toLowerCase (def_term t) = toLowerCase searchTerm) insuranceTerms"

section \<open>InsuranceService.categorizeQuestion\<close>

text \<open>
  The body of \<open>categorizeQuestion\<close> sits in a \<open>try\<close> whose handler returns \<open>'basic'\<close>. On a
  string nothing in the body throws, so the handler is not a branch of the model, and the
  promise the method returns always resolves with the value below.
\<close>

definition categorizeQuestion :: "string \<Rightarrow> QuestionCategory" where
  "categorizeQuestion question =
     (let lowerQuestion = toLowerCase question
      in if includes_str lowerQuestion ''health'' \<or>
            includes_str lowerQuestion ''medical'' \<or>
            includes_str lowerQuestion ''exam'' \<or>
            includes_str lowerQuestion ''pre-existing'' \<or>
            includes_str lowerQuestion ''condition'' \<or>
            includes_str lowerQuestion ''diabetes'' \<or>
            includes_str lowerQuestion ''smoker''
         then Health
         else if includes_str lowerQuestion ''claim'' \<or>
            includes_str lowerQuestion ''file'' \<or>
            includes_str lowerQuestion ''beneficiary payout'' \<or>
            includes_str lowerQuestion ''death certificate'' \<or>
            includes_str lowerQuestion ''process claim''
         then Claims
         else if includes_str lowerQuestion ''policy'' \<or>
            includes_str lowerQuestion ''coverage'' \<or>
            includes_str lowerQuestion ''premium'' \<or>
            includes_str lowerQuestion ''cash value'' \<or>
            includes_str lowerQuestion ''term'' \<or>
            includes_str lowerQuestion ''whole life'' \<or>
            includes_str lowerQuestion ''universal'' \<or>
            includes_str lowerQuestion ''variable'' \<or>
            includes_str lowerQuestion ''permanent''
         then Policy
         else Basic)"

text \<open>
  A text contains a keyword case-insensitively when some run of the text lowercases to the
  keyword; the three keyword groups are those of the three tests above.
\<close>

definition contains_ci :: "string \<Rightarrow> string \<Rightarrow> bool" where
  "contains_ci text keyword = (\<exists>w. includes_str text w \<and> toLowerCase w = keyword)"

definition health_keywords :: "string list" where
  "health_keywords =
     [''health'', ''medical'', ''exam'', ''pre-existing'', ''condition'', ''diabetes'', ''smoker'']"

definition claims_keywords :: "string list" where
  "claims_keywords =
     [''claim'', ''file'', ''beneficiary payout'', ''death certificate'', ''process claim'']"

definition policy_keywords :: "string list" where
  "policy_keywords =
     [''policy'', ''coverage'', ''premium'', ''cash value'', ''term'', ''whole life'',
      ''universal'', ''variable'', ''permanent'']"

section \<open>InsuranceService.extractContextFromQuery\<close>

text \<open>
  The coverage pattern
  \<open>/\$([0-9,]+)(?:k|K|thousand)|\$([0-9,]+)(?:m|M|million)|([0-9,]+) (?:thousand|million) dollars/\<close>.
  A match records which of the three groups took part and its text. The group \<open>[0-9,]+\<close> is
  greedy, and what follows it starts with a character outside \<open>[0-9,]\<close>, so the only run of the
  group that can lead to a match is the longest one at that place.
\<close>

datatype coverage_groups = Group1 string | Group2 string | Group3 string

definition is_amount_char :: "char \<Rightarrow> bool" where
  "is_amount_char c = (c \<in> set ''0123456789,'')"

text \<open>The three alternatives, in their order, at the start of \<open>s\<close>.\<close>

definition coverage_match_here :: "string \<Rightarrow> coverage_groups option" where
  "coverage_match_here s =
     (let dollar_run = (case s of [] \<Rightarrow> [] | c # r \<Rightarrow>
                          if c = CHR ''$'' then takeWhile is_amount_char r else []);
          dollar_rest = (case s of [] \<Rightarrow> [] | c # r \<Rightarrow> dropWhile is_amount_char r);
          run = takeWhile is_amount_char s;
          rest = dropWhile is_amount_char s
      in if dollar_run \<noteq> [] \<and>
            (prefix ''k'' dollar_rest \<or> prefix ''K'' dollar_rest \<or> prefix ''thousand'' dollar_rest)
         then Some (Group1 dollar_run)
         else if dollar_run \<noteq> [] \<and>
            (prefix ''m'' dollar_rest \<or> prefix ''M'' dollar_rest \<or> prefix ''million'' dollar_rest)
         then Some (Group2 dollar_run)
         else if run \<noteq> [] \<and>
            (prefix '' thousand dollars'' rest \<or> prefix '' million dollars'' rest)
         then Some (Group3 run)
         else None)"

text \<open>\<open>query.match(...)\<close> without the \<open>g\<close> flag: the match at the leftmost start position.\<close>

fun coverage_match :: "string \<Rightarrow> coverage_groups option" where
  "coverage_match [] = None"
| "coverage_match (c # s) =
     (case coverage_match_here (c # s) of
        Some g \<Rightarrow> Some g
      | None \<Rightarrow> coverage_match s)"

text \<open>
  The age pattern \<open>/\b(\d{1,2})\s*(?:years?\s*old|year-old|yo)\b/\<close> at the start of \<open>s\<close>, the
  leading \<open>\b\<close> apart. As above, the greedy parts \<open>\d{1,2}\<close>, \<open>\s*\<close> and \<open>s?\<close> can only match
  with their longest run, since what follows each starts with a character outside its class.
\<close>

definition age_match_here :: "string \<Rightarrow> string option" where
  "age_match_here s =
     (let ds = takeWhile is_digit (take 2 s);
          unit = dropWhile is_space (drop (length ds) s);
          after_year = drop 4 unit;
          after_s = (if prefix ''s'' after_year then drop 1 after_year else after_year);
          old = dropWhile is_space after_s
      in if ds \<noteq> [] \<and>
            ((prefix ''year'' unit \<and> prefix ''old'' old \<and> word_ends (drop 3 old)) \<or>
             (prefix ''year-old'' unit \<and> word_ends (drop 8 unit)) \<or>
             (prefix ''yo'' unit \<and> word_ends (drop 2 unit)))
         then Some ds else None)"

text \<open>
  The leftmost match; \<open>prev_word\<close> tells whether the character before the start position is a
  word character, in which case \<open>\b\<close> fails in front of a digit.
\<close>

fun age_match_from :: "bool \<Rightarrow> string \<Rightarrow> string option" where
  "age_match_from prev_word [] = None"
| "age_match_from prev_word (c # s) =
     (case (if prev_word then None else age_match_here (c # s)) of
        Some ds \<Rightarrow> Some ds
      | None \<Rightarrow> age_match_from (is_word_char c) s)"

definition age_match :: "string \<Rightarrow> string option" where
  "age_match query = age_match_from False query"

definition extractContextFromQuery :: "string \<Rightarrow> QuestionCategory \<Rightarrow> ExtractedContext" where
  "extractContextFromQuery query category =
     (let lq = toLowerCase query;
          policy =
            (if includes_str lq ''term life'' then Some Term
             else if includes_str lq ''whole life'' then Some Whole
             else if includes_str lq ''universal life'' then Some Universal
             else if includes_str lq ''variable life'' then Some Variable
             else None);
          amount =
            (case coverage_match query of
               None \<Rightarrow> None
             | Some (Group1 g) \<Rightarrow>
                 map_option (\<lambda>v. v * 1000) (parse_digits (filter (\<lambda>c. c \<noteq> CHR '','') g))
             | Some (Group2 g) \<Rightarrow>
                 map_option (\<lambda>v. v * 1000000) (parse_digits (filter (\<lambda>c. c \<noteq> CHR '','') g))
             | Some (Group3 g) \<Rightarrow>
                 map_option (\<lambda>v. if includes_str query ''million'' then v * 1000000 else v * 1000)
                   (parse_digits (filter (\<lambda>c. c \<noteq> CHR '','') g)));
          coverage =
            (case amount of
               None \<Rightarrow> None
             | Some a \<Rightarrow> if a > 0 then Some a else None);
          years =
            (case age_match query of
               None \<Rightarrow> None
             | Some ds \<Rightarrow>
                 (case parse_digits ds of
                    None \<Rightarrow> None
                  | Some a \<Rightarrow> if a > 0 \<and> a < 120 then Some a else None));
          health =
            (if includes_str lq ''diabetes'' \<or> includes_str lq ''high blood pressure'' \<or>
                includes_str lq ''heart condition''
             then Some PreExistingCondition
             else if includes_str lq ''smoker'' \<or> includes_str lq ''smoke cigarettes''
             then Some Smoker
             else if includes_str lq ''excellent health'' \<or> includes_str lq ''good health''
             then Some GoodHealth
             else None)
      in \<lparr>ctx_category = category, policyType = policy, coverageAmount = coverage,
          age = years, healthStatus = health\<rparr>)"

section \<open>InsuranceService: enhancement and follow-up questions\<close>

definition additional_information :: string where
  "additional_information = [CHR 0x0A, CHR 0x0A] @ ''Additional information: ''"

text \<open>
  \<open>enhanceResponseWithKnowledgeBase\<close>. Its \<open>try\<close> block calls nothing that throws, so it
  always returns a string. \<open>policyInfo\<close> starts as \<open>null\<close> and is looked up only for a context
  that has a policy type.
\<close>

definition enhanceResponseWithKnowledgeBase ::
    "string \<Rightarrow> string \<Rightarrow> ExtractedContext \<Rightarrow> QuestionCategory \<Rightarrow> string" where
  "enhanceResponseWithKnowledgeBase aiResponse query context category =
     (let relevantInfo = findRelevantInformation query
      in if relevantInfo = [] then aiResponse
         else
           (let policyInfo =
                  (case policyType context of
                     None \<Rightarrow> None
                   | Some p \<Rightarrow> findPolicyType (policyType_string p))
            in case policyInfo of
                 Some info \<Rightarrow>
                   if \<not> includes_str (toLowerCase aiResponse) (toLowerCase (pt_description info))
                   then aiResponse @ additional_information @ pt_description info
                   else if \<not> includes_str (toLowerCase aiResponse) (toLowerCase relevantInfo)
                   then aiResponse @ additional_information @ relevantInfo
                   else aiResponse
               | None \<Rightarrow>
                   if \<not> includes_str (toLowerCase aiResponse) (toLowerCase relevantInfo)
                   then aiResponse @ additional_information @ relevantInfo
                   else aiResponse))"

fun categoryQuestions :: "QuestionCategory \<Rightarrow> string list" where
  "categoryQuestions Basic =
     [''What types of life insurance are available?'',
      ''How much coverage do I need?'',
      ''What affects my insurance premium cost?'']"
| "categoryQuestions Health =
     [''How do health conditions affect my coverage?'',
      ''Do I need a medical exam for insurance?'',
      ''Can I get insurance with pre-existing conditions?'']"
| "categoryQuestions Policy =
     [''What's the difference between term and whole life?'',
      ''Can I modify my policy after purchase?'',
      ''How do premiums change over time?'']"
| "categoryQuestions Claims =
     [''What documents are needed for a claim?'',
      ''How long does the claims process take?'',
      ''Who can file a claim?'']"

definition generateFollowUpQuestions :: "QuestionCategory \<Rightarrow> string \<Rightarrow> string list" where
  "generateFollowUpQuestions category query =
     (let relatedTopics = getRelatedTopics query;
          topicQuestions = map (\<lambda>topic. ''What can you tell me about '' @ topic @ ''?'') relatedTopics;
          allQuestions = topicQuestions @ categoryQuestions category;
          uniqueQuestions = push_new [] allQuestions
      in take 3 uniqueQuestions)"

section \<open>The response generator\<close>

record ResponseContext =
  userQuery :: string
  previousMessages :: "string list option"
  userData :: "ExtractedContext option"

record FormattedResponse =
  message :: string
  suggestions :: "string list option"
  relatedTopics :: "string list option"
  confidence :: real

definition analyzeIntent :: "string \<Rightarrow> string" where
  "analyzeIntent query =
     (let lowerQuery = toLowerCase query
      in if includes_str lowerQuery ''term life'' \<or> includes_str lowerQuery ''whole life'' \<or>
            includes_str lowerQuery ''universal life'' \<or> includes_str lowerQuery ''variable life''
         then ''policy_explanation''
         else if includes_str lowerQuery ''premium'' \<or> includes_str lowerQuery ''cash value'' \<or>
            includes_str lowerQuery ''beneficiary'' \<or> includes_str lowerQuery ''underwriting''
         then ''term_definition''
         else if includes_str lowerQuery ''how much'' \<or> includes_str lowerQuery ''coverage'' \<or>
            includes_str lowerQuery ''amount''
         then ''coverage_question''
         else if includes_str lowerQuery ''health'' \<or> includes_str lowerQuery ''medical'' \<or>
            includes_str lowerQuery ''exam'' \<or> includes_str lowerQuery ''pre-existing''
         then ''health_question''
         else if includes_str lowerQuery ''claim'' \<or> includes_str lowerQuery ''file'' \<or>
            includes_str lowerQuery ''process''
         then ''claims_question''
         else ''general_insurance_query'')"

text \<open>\<open>Object.entries(userData)\<close>, each value as \<open>String(value)\<close>, in the order of creation.\<close>

definition userData_entries :: "ExtractedContext \<Rightarrow> (string \<times> string) list" where
  "userData_entries u =
     [(''category'', category_string (ctx_category u))] @
     (case policyType u of None \<Rightarrow> [] | Some p \<Rightarrow> [(''policyType'', policyType_string p)]) @
     (case coverageAmount u of None \<Rightarrow> [] | Some a \<Rightarrow> [(''coverageAmount'', string_of_nat a)]) @
     (case age u of None \<Rightarrow> [] | Some a \<Rightarrow> [(''age'', string_of_nat a)]) @
     (case healthStatus u of None \<Rightarrow> [] | Some h \<Rightarrow> [(''healthStatus'', healthStatus_string h)])"

text \<open>
  \<open>response.replace(/\b(your coverage|your policy)\b/g, `your ${formattedAmount} coverage`)\<close>.
  The replacement is a template: the pattern has one group, so a \<open>$1\<close> in it stands for the
  matched phrase, and the formatted amount brings one whenever its first digit is 1; \<open>$\<close> before
  another digit stays as it is.
\<close>

definition coverage_phrase_here :: "string \<Rightarrow> string option" where
  "coverage_phrase_here s =
     (if prefix ''your coverage'' s \<and> word_ends (drop 13 s) then Some ''your coverage''
      else if prefix ''your policy'' s \<and> word_ends (drop 11 s) then Some ''your policy''
      else None)"

definition coverage_replacement :: "string \<Rightarrow> string \<Rightarrow> string" where
  "coverage_replacement formattedAmount matched =
     ''your '' @
     (if prefix ''$1'' formattedAmount then matched @ drop 2 formattedAmount
      else formattedAmount) @
     '' coverage''"

fun replace_your :: "string \<Rightarrow> bool \<Rightarrow> string \<Rightarrow> string" where
  "replace_your formattedAmount prev_word [] = []"
| "replace_your formattedAmount prev_word (c # s) =
     (case (if prev_word then None else coverage_phrase_here (c # s)) of
        Some m \<Rightarrow>
          coverage_replacement formattedAmount m @
          replace_your formattedAmount True (drop (length m - 1) s)
      | None \<Rightarrow> c # replace_your formattedAmount (is_word_char c) s)"

definition enhanceWithPolicyDetails :: "string \<Rightarrow> PolicyTypeInfo \<Rightarrow> string" where
  "enhanceWithPolicyDetails response policyInfo =
     (if \<not> includes_str response (pt_description policyInfo)
      then
        (let r1 = (if includes_str response ''features'' \<and>
                      \<not> includes_str response (join '','' (pt_features policyInfo))
                   then replace_all ''{{features}}'' (join '', '' (pt_features policyInfo)) response
                   else response)
         in if includes_str r1 ''best for'' \<and>
               \<not> includes_str r1 (join '','' (pt_bestFor policyInfo))
            then replace_all ''{{bestFor}}'' (join '', '' (pt_bestFor policyInfo)) r1
            else r1)
      else response)"

text \<open>
  \<open>extractTermsFromMessages\<close> and \<open>applyContext\<close> take the result of
  \<open>this.knowledgeBase.getAllTerms()\<close> as \<open>allTerms\<close>; the response generator runs them with
  \<^term>\<open>getAllTerms\<close>.
\<close>

definition extractTermsFromMessages_with ::
    "js_error + string list \<Rightarrow> string list \<Rightarrow> js_error + string list" where
  "extractTermsFromMessages_with allTerms msgs =
     (case allTerms of
        Inl e \<Rightarrow> Inl e
      | Inr ts \<Rightarrow>
          Inr (push_new []
                 (concat (map (\<lambda>m.
                    filter (\<lambda>t. includes_str (toLowerCase m) (toLowerCase t)) ts) msgs))))"

definition enrichResponseWithTerms :: "string \<Rightarrow> string list \<Rightarrow> string" where
  "enrichResponseWithTerms response terms =
     (if length terms = 0 then response
      else
        (case findTerm (hd terms) of
           Some termInfo \<Rightarrow>
             if \<not> includes_str (toLowerCase response) (toLowerCase (def_term termInfo))
             then ''Regarding '' @ def_term termInfo @ '', '' @ response
             else response
         | None \<Rightarrow> response))"

definition back_references :: "string list" where
  "back_references = [''this'', ''that'', ''it'', ''these'', ''those'']"

text \<open>
  The four steps of \<open>applyContext\<close>, in the order of the source: the placeholders
  \<open>{{key}}\<close> of the user data, the coverage amount, the policy type, the conversation
  history. Only the last one can throw.
\<close>

definition substitute_userData :: "string \<Rightarrow> ExtractedContext option \<Rightarrow> string" where
  "substitute_userData response data =
     (case data of
        None \<Rightarrow> response
      | Some u \<Rightarrow>
          foldl (\<lambda>r (key, v). replace_all (''{{'' @ key @ ''}}'') v r) response
            (userData_entries u))"

definition personalize_coverage :: "string \<Rightarrow> ExtractedContext option \<Rightarrow> string" where
  "personalize_coverage response data =
     (case data of
        None \<Rightarrow> response
      | Some u \<Rightarrow>
          (case coverageAmount u of
             None \<Rightarrow> response
           | Some amount \<Rightarrow>
               if amount = 0 then response
               else
                 (let formattedAmount = format_usd amount;
                      r = replace_all ''{{coverageAmount}}'' formattedAmount response
                  in if includes_str r ''coverage'' \<or> includes_str r ''policy''
                     then replace_your formattedAmount False r
                     else r)))"

definition personalize_policy :: "string \<Rightarrow> ExtractedContext option \<Rightarrow> string" where
  "personalize_policy response data =
     (case data of
        None \<Rightarrow> response
      | Some u \<Rightarrow>
          (case policyType u of
             None \<Rightarrow> response
           | Some p \<Rightarrow>
               (case findPolicyType (policyType_string p) of
                  None \<Rightarrow> response
                | Some policyInfo \<Rightarrow> enhanceWithPolicyDetails response policyInfo)))"

definition continue_conversation ::
    "js_error + string list \<Rightarrow> string \<Rightarrow> string list option \<Rightarrow> js_error + string" where
  "continue_conversation allTerms response prevMessages =
     (case prevMessages of
        None \<Rightarrow> Inr response
      | Some pm \<Rightarrow>
          if length pm = 0 then Inr response
          else
            (let lastTwoMessages = drop (length pm - 2) pm;
                 referencesTerms =
                   list_ex (\<lambda>msg. list_ex (\<lambda>ref. includes_str (toLowerCase msg) ref)
                              back_references) lastTwoMessages
             in if referencesTerms
                then
                  (case extractTermsFromMessages_with allTerms lastTwoMessages of
                     Inl e \<Rightarrow> Inl e
                   | Inr potentialTerms \<Rightarrow>
                       if length potentialTerms > 0
                       then Inr (enrichResponseWithTerms response potentialTerms)
                       else Inr response)
                else Inr response))"

definition applyContext_with ::
    "js_error + string list \<Rightarrow> string \<Rightarrow> string list option \<Rightarrow> ExtractedContext option
       \<Rightarrow> js_error + string" where
  "applyContext_with allTerms baseResponse prevMessages data =
     continue_conversation allTerms
       (personalize_policy
          (personalize_coverage (substitute_userData baseResponse data) data) data)
       prevMessages"

definition applyContext ::
    "string \<Rightarrow> string list option \<Rightarrow> ExtractedContext option \<Rightarrow> js_error + string" where
  "applyContext baseResponse prevMessages data =
     applyContext_with getAllTerms baseResponse prevMessages data"

fun getSuggestionsByCategory :: "QuestionCategory \<Rightarrow> string list" where
  "getSuggestionsByCategory Basic = commonQuestions_coverage"
| "getSuggestionsByCategory Health = commonQuestions_healthRelated"
| "getSuggestionsByCategory Policy =
     [''What's the difference between term and whole life insurance?'',
      ''Can I modify my policy after purchase?'',
      ''How does cash value work in a whole life policy?'']"
| "getSuggestionsByCategory Claims = commonQuestions_claims"

definition detailMarkers :: "string list" where
  "detailMarkers = [''feature'', ''benefit'', ''cover'', ''policy'', ''premium'', ''underwriting'']"

text \<open>
  The confidence is a double: each decimal literal is the double nearest to it, and the product
  \<open>detailCount * 0.05\<close> and the sum are rounded as the machine rounds them. \<open>Math.min\<close> of two
  doubles is exact.
\<close>

definition calculateConfidence :: "string \<Rightarrow> real" where
  "calculateConfidence response =
     (if includes_str response ''I don't have specific information'' then to_double 0.5
      else if includes_str response ''I apologize'' \<or> includes_str response ''I'm having trouble''
      then to_double 0.3
      else
        (let detailCount = length (filter (\<lambda>marker. includes_str response marker) detailMarkers)
         in min (to_double (to_double 0.7 + to_double (real detailCount * to_double 0.05)))
              (to_double 0.95)))"

definition formatResponse :: "string \<Rightarrow> QuestionCategory option \<Rightarrow> FormattedResponse" where
  "formatResponse response category =
     (let suggested = getSuggestedQuestions response;
          merged = (case category of
                      None \<Rightarrow> suggested
                    | Some c \<Rightarrow> take 3 (push_new suggested (getSuggestionsByCategory c)))
      in \<lparr>message = response,
          suggestions = Some merged,
          relatedTopics = Some (getRelatedTopics response),
          confidence = calculateConfidence response\<rparr>)"

definition generateErrorResponse :: "js_error \<Rightarrow> FormattedResponse" where
  "generateErrorResponse err =
     \<lparr>message = ''I apologize, but I'm having trouble processing your request. '' @
                 ''Please try rephrasing your question or contact our support team for assistance.'',
      suggestions = Some [''Can you explain your insurance needs?'',
                          ''What type of coverage are you looking for?'',
                          ''Would you like to speak with an insurance agent?''],
      relatedTopics = None,
      confidence = 1\<rparr>"

text \<open>The \<open>try\<close> block of \<open>generateResponse\<close>, and \<open>generateResponse\<close> with its handler.\<close>

definition generateResponse_body :: "ResponseContext \<Rightarrow> js_error + FormattedResponse" where
  "generateResponse_body context =
     (let intent = analyzeIntent (userQuery context);
          relevantInfo = findRelevantInformation intent
      in case applyContext relevantInfo (previousMessages context) (userData context) of
           Inl e \<Rightarrow> Inl e
         | Inr contextualizedResponse \<Rightarrow>
             Inr (formatResponse contextualizedResponse
                    (map_option ctx_category (userData context))))"

definition generateResponse :: "ResponseContext \<Rightarrow> FormattedResponse" where
  "generateResponse context =
     (case generateResponse_body context of
        Inl e \<Rightarrow> generateErrorResponse e
      | Inr r \<Rightarrow> r)"

section \<open>InsuranceService.processQuery\<close>

text \<open>
  The language model is outside the program. What \<open>processQuery\<close> sees of
  \<open>getLanguageModel(...)\<close> followed by \<open>await model.complete(...)\<close> is \<open>completion\<close>: the text
  of the completion, or the value thrown by either call. The prompt only travels to the model
  and is not part of the model. \<open>useAI\<close> is \<open>config.useAI\<close>, \<open>None\<close> when the key is absent, and a
  model override counts when it is a non-empty string.

  \<open>processQuery_with\<close> takes the \<open>generateResponse\<close> of the response generator as \<open>gen\<close>, with a
  result that may be a rejection; \<open>processQuery\<close> runs it with \<^term>\<open>generateResponse\<close>.
\<close>

definition trouble_answering :: string where
  "trouble_answering =
     ''Sorry, I'm having trouble answering that question about insurance. Please try rephrasing it or ask something else.''"

definition processQuery_with ::
    "(ResponseContext \<Rightarrow> js_error + FormattedResponse) \<Rightarrow> bool option \<Rightarrow> string option
       \<Rightarrow> js_error + string \<Rightarrow> string \<Rightarrow> js_error + string" where
  "processQuery_with gen useAI override completion query =
     (let outer =
        (let category = categorizeQuestion query;
             context = extractContextFromQuery query category;
             fallback =
               (case gen \<lparr>userQuery = query, previousMessages = None,
                           userData = Some context\<rparr> of
                  Inl e \<Rightarrow> Inl e
                | Inr response \<Rightarrow> Inr (message response))
         in if (override \<noteq> None \<and> override \<noteq> Some []) \<or> useAI \<noteq> Some False
            then
              (case completion of
                 Inr text \<Rightarrow>
                   Inr (enhanceResponseWithKnowledgeBase text query context category)
               | Inl aiError \<Rightarrow> fallback)
            else fallback)
      in case outer of
           Inl e \<Rightarrow> Inr trouble_answering
         | Inr answer \<Rightarrow> Inr answer)"

definition processQuery ::
    "bool option \<Rightarrow> string option \<Rightarrow> js_error + string \<Rightarrow> string \<Rightarrow> js_error + string" where
  "processQuery useAI override completion query =
     processQuery_with (\<lambda>context. Inr (generateResponse context)) useAI override completion query"

section \<open>The hook useInsuranceChat\<close>

text \<open>
  The state of the hook. The \<open>timestamp\<close> of a message, a reading of the clock, and the
  \<open>onError\<close> callback of the caller are not part of the model. \<open>contextRef\<close> starts as the empty
  object \<open>{}\<close> (\<open>None\<close>), and each turn spreads the extracted context over it.
\<close>

datatype Role = User | Assistant

record InsuranceMessage =
  content :: string
  role :: Role
  msg_category :: "QuestionCategory option"
  msg_suggestions :: "string list option"

record ChatState =
  messages :: "InsuranceMessage list"
  isLoading :: bool
  error :: "js_error option"
  chat_suggestions :: "string list"
  modelOverride :: "string option"
  lastMessageRef :: string
  contextRef :: "ExtractedContext option"

text \<open>
  The first state: the messages parsed from local storage when there are any (\<open>stored\<close>), the
  option \<open>initialMessages\<close> otherwise.
\<close>

definition initial_state :: "InsuranceMessage list option \<Rightarrow> InsuranceMessage list \<Rightarrow> ChatState" where
  "initial_state stored initialMessages =
     \<lparr>messages = (case stored of Some saved \<Rightarrow> saved | None \<Rightarrow> initialMessages),
      isLoading = False, error = None, chat_suggestions = [], modelOverride = None,
      lastMessageRef = [], contextRef = None\<rparr>"

definition spread_context :: "ExtractedContext option \<Rightarrow> ExtractedContext \<Rightarrow> ExtractedContext" where
  "spread_context older newer =
     (case older of
        None \<Rightarrow> newer
      | Some old \<Rightarrow>
          \<lparr>ctx_category = ctx_category newer,
           policyType = (case policyType newer of None \<Rightarrow> policyType old | Some p \<Rightarrow> Some p),
           coverageAmount =
             (case coverageAmount newer of None \<Rightarrow> coverageAmount old | Some a \<Rightarrow> Some a),
           age = (case age newer of None \<Rightarrow> age old | Some a \<Rightarrow> Some a),
           healthStatus =
             (case healthStatus newer of None \<Rightarrow> healthStatus old | Some h \<Rightarrow> Some h)\<rparr>)"

text \<open>
  \<open>sendMessage\<close> in two halves. \<open>sendMessage_begin\<close> is what happens before the first
  \<open>await\<close>: the state while the turn is in flight. \<open>sendMessage_settle_with\<close> is the rest,
  given how the promise of \<open>processQuery\<close> settled (\<open>response\<close>): the assistant message on a
  resolution, the \<open>catch\<close> block on a rejection, and the \<open>finally\<close> block in both cases.
\<close>

definition sendMessage_begin :: "string \<Rightarrow> ChatState \<Rightarrow> ChatState" where
  "sendMessage_begin text s =
     s\<lparr>isLoading := True, error := None, lastMessageRef := text,
       messages := messages s @
         [\<lparr>content = text, role = User, msg_category = None, msg_suggestions = None\<rparr>]\<rparr>"

definition sendMessage_settle_with :: "js_error + string \<Rightarrow> string \<Rightarrow> ChatState \<Rightarrow> ChatState" where
  "sendMessage_settle_with response text s =
     (let category = categorizeQuestion text;
          extractedContext = extractContextFromQuery text category;
          s1 = s\<lparr>contextRef := Some (spread_context (contextRef s) extractedContext)\<rparr>
      in case response of
           Inr answer \<Rightarrow>
             (let followUpSuggestions = generateFollowUpQuestions category text
              in s1\<lparr>messages := messages s1 @
                      [\<lparr>content = answer, role = Assistant, msg_category = Some category,
                        msg_suggestions = Some followUpSuggestions\<rparr>],
                    chat_suggestions :=
                      (if length followUpSuggestions > 0 then followUpSuggestions else []),
                    isLoading := False\<rparr>)
         | Inl err \<Rightarrow>
             s1\<lparr>error := Some (case err of
                                   Thrown v \<Rightarrow> Error ''Failed to process message''
                                 | TypeError m \<Rightarrow> err
                                 | Error m \<Rightarrow> err),
                isLoading := False\<rparr>)"

text \<open>
  The hook calls \<open>processQuery\<close> of its own service with the model override of the state;
  \<open>useAI\<close> is the \<open>useAI\<close> of the service configuration and \<open>completion\<close> what the language
  model does in this turn.
\<close>

definition sendMessage_settle ::
    "bool option \<Rightarrow> js_error + string \<Rightarrow> string \<Rightarrow> ChatState \<Rightarrow> ChatState" where
  "sendMessage_settle useAI completion text s =
     sendMessage_settle_with (processQuery useAI (modelOverride s) completion text) text s"

definition sendMessage ::
    "bool option \<Rightarrow> js_error + string \<Rightarrow> string \<Rightarrow> ChatState \<Rightarrow> ChatState" where
  "sendMessage useAI completion text s =
     sendMessage_settle useAI completion text (sendMessage_begin text s)"

definition resetChat :: "InsuranceMessage list \<Rightarrow> ChatState \<Rightarrow> ChatState" where
  "resetChat initialMessages s =
     s\<lparr>messages := initialMessages, error := None, chat_suggestions := [],
       modelOverride := None, lastMessageRef := [], contextRef := None\<rparr>"

text \<open>
  Calls of the hook that have run to their end: \<open>sendMessage\<close> with its text and the way the
  promise of \<open>processQuery\<close> settled, \<open>resetChat\<close>, and \<open>setModelOverride\<close>. A list of calls,
  in the order in which they were made, is a session whose calls follow one another: none
  starts while a turn is in flight. The hook itself starts a call whenever it is asked to.
\<close>

datatype hook_call =
  SendMessage string "js_error + string"
| ResetChat
| SetModelOverride "string option"

fun run_call :: "InsuranceMessage list \<Rightarrow> ChatState \<Rightarrow> hook_call \<Rightarrow> ChatState" where
  "run_call initialMessages s (SendMessage text response) =
     sendMessage_settle_with response text (sendMessage_begin text s)"
| "run_call initialMessages s ResetChat = resetChat initialMessages s"
| "run_call initialMessages s (SetModelOverride name) = s\<lparr>modelOverride := name\<rparr>"

definition session ::
    "InsuranceMessage list option \<Rightarrow> InsuranceMessage list \<Rightarrow> hook_call list \<Rightarrow> ChatState" where
  "session stored initialMessages calls =
     foldl (run_call initialMessages) (initial_state stored initialMessages) calls"

text \<open>The number of failed turns since the session started or was last reset.\<close>

definition failed_turns :: "hook_call list \<Rightarrow> nat" where
  "failed_turns calls =
     foldl (\<lambda>k c. case c of
                     SendMessage text (Inl err) \<Rightarrow> Suc k
                   | SendMessage text (Inr answer) \<Rightarrow> k
                   | ResetChat \<Rightarrow> 0
                   | SetModelOverride name \<Rightarrow> k) 0 calls"

text \<open>
  Equality and containment of strings up to letter case, as the knowledge base tests them.
\<close>

definition equals_ci :: "string \<Rightarrow> string \<Rightarrow> bool" where
  "equals_ci a b = (toLowerCase a = toLowerCase b)"

definition includes_ci :: "string \<Rightarrow> string \<Rightarrow> bool" where
  "includes_ci s t = includes_str (toLowerCase s) (toLowerCase t)"

section \<open>Facts about strings\<close>

lemma includes_iff: "includes_str s t \<longleftrightarrow> (\<exists>p r. s = p @ t @ r)"
proof (induction s)
  case Nil
  then show ?case by auto
next
  case (Cons c s)
  show ?case
  proof
    assume "includes_str (c # s) t"
    then consider "prefix t (c # s)" | "includes_str s t" by auto
    then show "\<exists>p r. c # s = p @ t @ r"
    proof cases
      case 1
      then obtain r where "c # s = t @ r" by (auto simp: prefix_def)
      then have "c # s = [] @ t @ r" by simp
      then show ?thesis by blast
    next
      case 2
      with Cons.IH obtain p r where "s = p @ t @ r" by blast
      then have "c # s = (c # p) @ t @ r" by simp
      then show ?thesis by blast
    qed
  next
    assume "\<exists>p r. c # s = p @ t @ r"
    then obtain p r where eq: "c # s = p @ t @ r" by blast
    show "includes_str (c # s) t"
    proof (cases p)
      case Nil
      with eq have "prefix t (c # s)" by (simp add: prefix_def)
      then show ?thesis by simp
    next
      case (Cons a p')
      with eq have "s = p' @ t @ r" by simp
      with Cons.IH have "includes_str s t" by blast
      then show ?thesis by simp
    qed
  qed
qed

lemma includes_toLowerCase_iff:
  "includes_str (toLowerCase s) k \<longleftrightarrow> contains_ci s k"
proof
  assume "includes_str (toLowerCase s) k"
  then obtain p r where "map lower_char s = p @ k @ r"
    by (auto simp: includes_iff toLowerCase_def)
  then obtain p' v where v: "s = p' @ v" "k @ r = map lower_char v"
    unfolding map_eq_append_conv by blast
  from v(2) obtain w r' where w: "v = w @ r'" "k = map lower_char w"
    unfolding append_eq_map_conv by blast
  from v(1) w have "s = p' @ w @ r'" and "map lower_char w = k" by simp_all
  then show "contains_ci s k"
    unfolding contains_ci_def toLowerCase_def includes_iff by blast
next
  assume "contains_ci s k"
  then obtain w p r where "s = p @ w @ r" and "map lower_char w = k"
    by (auto simp: contains_ci_def includes_iff toLowerCase_def)
  then have "map lower_char s = map lower_char p @ k @ map lower_char r" by simp
  then show "includes_str (toLowerCase s) k"
    unfolding includes_iff toLowerCase_def by blast
qed

section \<open>The categorizer\<close>

text \<open>
  C3: a text that contains one of the health keywords \<open>health\<close>, \<open>medical\<close>, \<open>exam\<close>,
  \<open>pre-existing\<close>, \<open>condition\<close>, \<open>diabetes\<close>, \<open>smoker\<close> in any letter case is categorized
  \<open>health\<close>, whatever claims or policy keywords it also contains, and a text that contains no
  keyword of the three groups is categorized \<open>basic\<close>.
\<close>

theorem categorizeQuestion_health_first:
  "((\<exists>k \<in> set health_keywords. contains_ci text k) \<longrightarrow> categorizeQuestion text = Health) \<and>
   ((\<forall>k \<in> set (health_keywords @ claims_keywords @ policy_keywords). \<not> contains_ci text k)
      \<longrightarrow> categorizeQuestion text = Basic)"
proof (intro conjI impI)
  assume "\<exists>k \<in> set health_keywords. contains_ci text k"
  then have "\<exists>k \<in> set health_keywords. includes_str (toLowerCase text) k"
    by (simp only: includes_toLowerCase_iff)
  then show "categorizeQuestion text = Health"
    by (auto simp: health_keywords_def categorizeQuestion_def Let_def)
next
  assume "\<forall>k \<in> set (health_keywords @ claims_keywords @ policy_keywords). \<not> contains_ci text k"
  then have "\<forall>k \<in> set (health_keywords @ claims_keywords @ policy_keywords).
      \<not> includes_str (toLowerCase text) k"
    by (simp only: includes_toLowerCase_iff)
  then show "categorizeQuestion text = Basic"
    by (simp add: health_keywords_def claims_keywords_def policy_keywords_def
        categorizeQuestion_def Let_def)
qed

theorem categorizeQuestion_health_first_witness:
  "categorizeQuestion ''I have Diabetes: how do I file a claim on my policy?'' = Health \<and>
   categorizeQuestion ''Hello there'' = Basic"
proof
  have "includes_str (toLowerCase ''I have Diabetes: how do I file a claim on my policy?'') ''diabetes''"
    by code_simp
  then have "contains_ci ''I have Diabetes: how do I file a claim on my policy?'' ''diabetes''"
    by (simp only: includes_toLowerCase_iff)
  then have "\<exists>k \<in> set health_keywords.
      contains_ci ''I have Diabetes: how do I file a claim on my policy?'' k"
    by (auto simp: health_keywords_def)
  with categorizeQuestion_health_first
  show "categorizeQuestion ''I have Diabetes: how do I file a claim on my policy?'' = Health"
    by blast
next
  have "\<forall>k \<in> set (health_keywords @ claims_keywords @ policy_keywords).
      \<not> includes_str (toLowerCase ''Hello there'') k"
    by code_simp
  then have "\<forall>k \<in> set (health_keywords @ claims_keywords @ policy_keywords).
      \<not> contains_ci ''Hello there'' k"
    by (simp only: includes_toLowerCase_iff)
  with categorizeQuestion_health_first
  show "categorizeQuestion ''Hello there'' = Basic"
    by blast
qed

section \<open>The knowledge base lookup\<close>

lemma hd_filter_first:
  "i < length xs \<Longrightarrow> P (xs ! i) \<Longrightarrow> \<forall>j<i. \<not> P (xs ! j) \<Longrightarrow> hd (filter P xs) = xs ! i"
proof (induction xs arbitrary: i)
  case Nil
  then show ?case by simp
next
  case (Cons x xs)
  show ?case
  proof (cases i)
    case 0
    with Cons.prems show ?thesis by simp
  next
    case (Suc k)
    with Cons.prems have "\<not> P x" by auto
    moreover from Suc Cons.prems have "hd (filter P xs) = xs ! k"
      by (intro Cons.IH) auto
    ultimately show ?thesis using Suc by simp
  qed
qed

lemma entries_terms_distinct: "distinct (map (\<lambda>e. toLowerCase (kb_term e)) entries)"
  by code_simp

lemma findRelevantInformation_in_exact:
  assumes i: "i < length es" and eq: "equals_ci (kb_term (es ! i)) topic"
    and dist: "distinct (map (\<lambda>e. toLowerCase (kb_term e)) es)"
  shows "findRelevantInformation_in es topic = kb_definition (es ! i)"
proof -
  let ?P = "\<lambda>entry. toLowerCase (kb_term entry) = toLowerCase topic"
  from i eq have "\<exists>x. x \<in> set es \<and> ?P x"
    unfolding equals_ci_def using nth_mem by blast
  then obtain x where found: "List.find ?P es = Some x"
    by (cases "List.find ?P es") (auto simp: find_None_iff)
  then obtain j where j: "j < length es" "?P (es ! j)" "x = es ! j"
    unfolding find_Some_iff by blast
  let ?ts = "map (\<lambda>e. toLowerCase (kb_term e)) es"
  from dist i j have "(?ts ! i = ?ts ! j) = (i = j)"
    by (intro nth_eq_iff_index_eq) simp_all
  moreover from i j eq have "?ts ! i = ?ts ! j"
    by (simp add: equals_ci_def)
  ultimately have "i = j" by (rule iffD1)
  with found j show ?thesis
    by (simp add: findRelevantInformation_in_def)
qed

lemma findRelevantInformation_in_partial:
  assumes none: "\<forall>e \<in> set es. \<not> equals_ci (kb_term e) topic"
    and i: "i < length es"
    and hit: "includes_ci topic (kb_term (es ! i)) \<or> includes_ci (kb_term (es ! i)) topic"
    and first: "\<forall>j<i. \<not> (includes_ci topic (kb_term (es ! j)) \<or> includes_ci (kb_term (es ! j)) topic)"
  shows "findRelevantInformation_in es topic = kb_definition (es ! i)"
proof -
  let ?P = "\<lambda>entry. toLowerCase (kb_term entry) = toLowerCase topic"
  let ?Q = "\<lambda>entry. includes_str (toLowerCase topic) (toLowerCase (kb_term entry)) \<or>
      includes_str (toLowerCase (kb_term entry)) (toLowerCase topic)"
  from none have nf: "List.find ?P es = None"
    by (auto simp: find_None_iff equals_ci_def)
  from hit have q: "?Q (es ! i)" by (simp add: includes_ci_def)
  from first have fq: "\<forall>j<i. \<not> ?Q (es ! j)" by (simp add: includes_ci_def)
  from i q fq have h: "hd (filter ?Q es) = es ! i" by (rule hd_filter_first)
  from i q have "es ! i \<in> set (filter ?Q es)" by simp
  then have "length (filter ?Q es) > 0" by (metis length_pos_if_in_set)
  with nf h show ?thesis
    by (simp add: findRelevantInformation_in_def Let_def)
qed

lemma findRelevantInformation_in_none:
  assumes "\<forall>e \<in> set es. \<not> equals_ci (kb_term e) topic \<and>
      \<not> includes_ci topic (kb_term e) \<and> \<not> includes_ci (kb_term e) topic"
  shows "findRelevantInformation_in es topic = no_information topic"
proof -
  let ?P = "\<lambda>entry. toLowerCase (kb_term entry) = toLowerCase topic"
  let ?Q = "\<lambda>entry. includes_str (toLowerCase topic) (toLowerCase (kb_term entry)) \<or>
      includes_str (toLowerCase (kb_term entry)) (toLowerCase topic)"
  from assms have nf: "List.find ?P es = None"
    by (auto simp: find_None_iff equals_ci_def)
  from assms have "filter ?Q es = []"
    by (auto simp: filter_empty_conv includes_ci_def)
  with nf show ?thesis
    by (simp add: findRelevantInformation_in_def Let_def)
qed

text \<open>
  C5: for every topic, \<open>findRelevantInformation\<close> returns the definition of the entry whose
  term equals the topic up to letter case, if there is one; otherwise the definition of the
  first entry, in the order of the table, whose term the topic contains or whose term contains
  the topic, up to letter case; otherwise the fixed sentence that starts
  "I don't have specific information", names the topic and offers example topics.
\<close>

theorem findRelevantInformation_cases:
  \<open>(\<forall>i<length entries. equals_ci (kb_term (entries ! i)) topic \<longrightarrow>
       findRelevantInformation topic = kb_definition (entries ! i)) \<and>
   ((\<forall>e \<in> set entries. \<not> equals_ci (kb_term e) topic) \<longrightarrow>
     (\<forall>i<length entries.
        (includes_ci topic (kb_term (entries ! i)) \<or> includes_ci (kb_term (entries ! i)) topic) \<and>
        (\<forall>j<i. \<not> (includes_ci topic (kb_term (entries ! j)) \<or>
                    includes_ci (kb_term (entries ! j)) topic)) \<longrightarrow>
        findRelevantInformation topic = kb_definition (entries ! i))) \<and>
   ((\<forall>e \<in> set entries. \<not> equals_ci (kb_term e) topic \<and>
        \<not> includes_ci topic (kb_term e) \<and> \<not> includes_ci (kb_term e) topic) \<longrightarrow>
      findRelevantInformation topic =
        ''I don't have specific information about "'' @ topic @
        ''" in my knowledge base. Would you like to know about term life insurance, whole life insurance, or another insurance topic?'')\<close>
proof (intro conjI allI impI)
  fix i assume "i < length entries" "equals_ci (kb_term (entries ! i)) topic"
  then show "findRelevantInformation topic = kb_definition (entries ! i)"
    unfolding findRelevantInformation_def
    by (rule findRelevantInformation_in_exact) (rule entries_terms_distinct)
next
  fix i
  assume "\<forall>e \<in> set entries. \<not> equals_ci (kb_term e) topic" "i < length entries"
    "(includes_ci topic (kb_term (entries ! i)) \<or> includes_ci (kb_term (entries ! i)) topic) \<and>
     (\<forall>j<i. \<not> (includes_ci topic (kb_term (entries ! j)) \<or>
                 includes_ci (kb_term (entries ! j)) topic))"
  then show "findRelevantInformation topic = kb_definition (entries ! i)"
    unfolding findRelevantInformation_def
    by (intro findRelevantInformation_in_partial) auto
next
  assume "\<forall>e \<in> set entries. \<not> equals_ci (kb_term e) topic \<and>
        \<not> includes_ci topic (kb_term e) \<and> \<not> includes_ci (kb_term e) topic"
  then have "findRelevantInformation topic = no_information topic"
    unfolding findRelevantInformation_def by (rule findRelevantInformation_in_none)
  then show \<open>findRelevantInformation topic =
        ''I don't have specific information about "'' @ topic @
        ''" in my knowledge base. Would you like to know about term life insurance, whole life insurance, or another insurance topic?''\<close>
    by (simp add: no_information_def)
qed

lemma entries_length: "length entries = 8"
  by (simp add: entries_def)

lemma premium_is_entry_5: "equals_ci (kb_term (entries ! 5)) ''Premium''"
  by code_simp

lemma whole_life_is_no_term: "\<forall>e \<in> set entries. \<not> equals_ci (kb_term e) ''whole life''"
  by code_simp

lemma whole_life_in_entry_1:
  "includes_ci ''whole life'' (kb_term (entries ! 1)) \<or>
   includes_ci (kb_term (entries ! 1)) ''whole life''"
  by code_simp

lemma whole_life_not_in_entry_0:
  "\<not> (includes_ci ''whole life'' (kb_term (entries ! 0)) \<or>
      includes_ci (kb_term (entries ! 0)) ''whole life'')"
  by code_simp

lemma policy_explanation_unknown:
  "\<forall>e \<in> set entries. \<not> equals_ci (kb_term e) ''policy_explanation'' \<and>
     \<not> includes_ci ''policy_explanation'' (kb_term e) \<and>
     \<not> includes_ci (kb_term e) ''policy_explanation''"
  by code_simp

theorem findRelevantInformation_cases_witness:
  \<open>findRelevantInformation ''Premium'' =
     ''The amount paid to the insurance company to maintain coverage, which can be paid monthly, quarterly, semi-annually, or annually.'' \<and>
   findRelevantInformation ''whole life'' =
     ''Permanent life insurance that provides coverage for your entire life, includes a cash value component, and typically has fixed premiums.'' \<and>
   findRelevantInformation ''policy_explanation'' =
     ''I don't have specific information about "policy_explanation" in my knowledge base. Would you like to know about term life insurance, whole life insurance, or another insurance topic?''\<close>
proof (intro conjI)
  have "findRelevantInformation ''Premium'' = kb_definition (entries ! 5)"
    using findRelevantInformation_cases [of "''Premium''"] premium_is_entry_5
    by (simp add: entries_length)
  then show "findRelevantInformation ''Premium'' =
     ''The amount paid to the insurance company to maintain coverage, which can be paid monthly, quarterly, semi-annually, or annually.''"
    by (simp add: entries_def)
next
  have "\<forall>j<(1::nat). \<not> (includes_ci ''whole life'' (kb_term (entries ! j)) \<or>
      includes_ci (kb_term (entries ! j)) ''whole life'')"
    using whole_life_not_in_entry_0 by simp
  with findRelevantInformation_cases [of "''whole life''"] whole_life_is_no_term
    whole_life_in_entry_1
  have "findRelevantInformation ''whole life'' = kb_definition (entries ! 1)"
    by (simp add: entries_length)
  then show "findRelevantInformation ''whole life'' =
     ''Permanent life insurance that provides coverage for your entire life, includes a cash value component, and typically has fixed premiums.''"
    by (simp add: entries_def)
next
  from findRelevantInformation_cases [of "''policy_explanation''"] policy_explanation_unknown
  have \<open>findRelevantInformation ''policy_explanation'' =
     ''I don't have specific information about "'' @ ''policy_explanation'' @
     ''" in my knowledge base. Would you like to know about term life insurance, whole life insurance, or another insurance topic?''\<close>
    by blast
  then show \<open>findRelevantInformation ''policy_explanation'' =
     ''I don't have specific information about "policy_explanation" in my knowledge base. Would you like to know about term life insurance, whole life insurance, or another insurance topic?''\<close>
    by simp
qed

section \<open>The confidence of a response\<close>

lemma binade_unfold:
  "0 < fuel \<Longrightarrow> binade fuel x =
     (if 2 \<le> x then binade (fuel - 1) (x / 2) + 1
      else if x < 1 then binade (fuel - 1) (x * 2) - 1
      else 0)"
  by (cases fuel) simp_all

lemma to_double_eval:
  "0 < x \<Longrightarrow> binade 1100 x = e \<Longrightarrow> pow2 (e - 52) = u \<Longrightarrow> round_half_even (x / u) = m \<Longrightarrow>
   to_double x = of_int m * u"
  by (simp add: to_double_def Let_def)

text \<open>
  The doubles of the literals \<open>0.5\<close>, \<open>0.3\<close>, \<open>0.7\<close>, \<open>0.05\<close> and \<open>0.95\<close>, of the products
  \<open>n * 0.05\<close> and of the sums \<open>0.7 + n * 0.05\<close> for \<open>n\<close> from 0 to 6.
\<close>

lemma double_0_5: "to_double (0.5) = 1 / 2"
proof -
  have "to_double (0.5) = of_int 4503599627370496 * (1 / 9007199254740992)"
  proof (rule to_double_eval [where e = "- 1"])
    show "(0::real) < 0.5" by simp
    show "binade 1100 (0.5) = - 1" by (simp add: binade_unfold)
    show "pow2 (- 1 - 52) = 1 / 9007199254740992" by (simp add: pow2_def)
    show "round_half_even ((0.5) / (1 / 9007199254740992)) = 4503599627370496"
      by (simp add: round_half_even_def Let_def)
  qed
  then show ?thesis by simp
qed

lemma double_0_3: "to_double (0.3) = 5404319552844595 / 18014398509481984"
proof -
  have "to_double (0.3) = of_int 5404319552844595 * (1 / 18014398509481984)"
  proof (rule to_double_eval [where e = "- 2"])
    show "(0::real) < 0.3" by simp
    show "binade 1100 (0.3) = - 2" by (simp add: binade_unfold)
    show "pow2 (- 2 - 52) = 1 / 18014398509481984" by (simp add: pow2_def)
    show "round_half_even ((0.3) / (1 / 18014398509481984)) = 5404319552844595"
      by (simp add: round_half_even_def Let_def)
  qed
  then show ?thesis by simp
qed

lemma double_0_7: "to_double (0.7) = 3152519739159347 / 4503599627370496"
proof -
  have "to_double (0.7) = of_int 6305039478318694 * (1 / 9007199254740992)"
  proof (rule to_double_eval [where e = "- 1"])
    show "(0::real) < 0.7" by simp
    show "binade 1100 (0.7) = - 1" by (simp add: binade_unfold)
    show "pow2 (- 1 - 52) = 1 / 9007199254740992" by (simp add: pow2_def)
    show "round_half_even ((0.7) / (1 / 9007199254740992)) = 6305039478318694"
      by (simp add: round_half_even_def Let_def)
  qed
  then show ?thesis by simp
qed

lemma double_0_05: "to_double (0.05) = 3602879701896397 / 72057594037927936"
proof -
  have "to_double (0.05) = of_int 7205759403792794 * (1 / 144115188075855872)"
  proof (rule to_double_eval [where e = "- 5"])
    show "(0::real) < 0.05" by simp
    show "binade 1100 (0.05) = - 5" by (simp add: binade_unfold)
    show "pow2 (- 5 - 52) = 1 / 144115188075855872" by (simp add: pow2_def)
    show "round_half_even ((0.05) / (1 / 144115188075855872)) = 7205759403792794"
      by (simp add: round_half_even_def Let_def)
  qed
  then show ?thesis by simp
qed

lemma double_0_95: "to_double (0.95) = 4278419646001971 / 4503599627370496"
proof -
  have "to_double (0.95) = of_int 8556839292003942 * (1 / 9007199254740992)"
  proof (rule to_double_eval [where e = "- 1"])
    show "(0::real) < 0.95" by simp
    show "binade 1100 (0.95) = - 1" by (simp add: binade_unfold)
    show "pow2 (- 1 - 52) = 1 / 9007199254740992" by (simp add: pow2_def)
    show "round_half_even ((0.95) / (1 / 9007199254740992)) = 8556839292003942"
      by (simp add: round_half_even_def Let_def)
  qed
  then show ?thesis by simp
qed

lemma sum_0: "to_double (3152519739159347 / 4503599627370496) = 3152519739159347 / 4503599627370496"
proof -
  have "to_double (3152519739159347 / 4503599627370496) = of_int 6305039478318694 * (1 / 9007199254740992)"
  proof (rule to_double_eval [where e = "- 1"])
    show "(0::real) < 3152519739159347 / 4503599627370496" by simp
    show "binade 1100 (3152519739159347 / 4503599627370496) = - 1" by (simp add: binade_unfold)
    show "pow2 (- 1 - 52) = 1 / 9007199254740992" by (simp add: pow2_def)
    show "round_half_even ((3152519739159347 / 4503599627370496) / (1 / 9007199254740992)) = 6305039478318694"
      by (simp add: round_half_even_def Let_def)
  qed
  then show ?thesis by simp
qed

lemma product_1: "to_double (3602879701896397 / 72057594037927936) = 3602879701896397 / 72057594037927936"
proof -
  have "to_double (3602879701896397 / 72057594037927936) = of_int 7205759403792794 * (1 / 144115188075855872)"
  proof (rule to_double_eval [where e = "- 5"])
    show "(0::real) < 3602879701896397 / 72057594037927936" by simp
    show "binade 1100 (3602879701896397 / 72057594037927936) = - 5" by (simp add: binade_unfold)
    show "pow2 (- 5 - 52) = 1 / 144115188075855872" by (simp add: pow2_def)
    show "round_half_even ((3602879701896397 / 72057594037927936) / (1 / 144115188075855872)) = 7205759403792794"
      by (simp add: round_half_even_def Let_def)
  qed
  then show ?thesis by simp
qed

lemma sum_1: "to_double (54043195528445949 / 72057594037927936) = 3 / 4"
proof -
  have "to_double (54043195528445949 / 72057594037927936) = of_int 6755399441055744 * (1 / 9007199254740992)"
  proof (rule to_double_eval [where e = "- 1"])
    show "(0::real) < 54043195528445949 / 72057594037927936" by simp
    show "binade 1100 (54043195528445949 / 72057594037927936) = - 1" by (simp add: binade_unfold)
    show "pow2 (- 1 - 52) = 1 / 9007199254740992" by (simp add: pow2_def)
    show "round_half_even ((54043195528445949 / 72057594037927936) / (1 / 9007199254740992)) = 6755399441055744"
      by (simp add: round_half_even_def Let_def)
  qed
  then show ?thesis by simp
qed

lemma product_2: "to_double (3602879701896397 / 36028797018963968) = 3602879701896397 / 36028797018963968"
proof -
  have "to_double (3602879701896397 / 36028797018963968) = of_int 7205759403792794 * (1 / 72057594037927936)"
  proof (rule to_double_eval [where e = "- 4"])
    show "(0::real) < 3602879701896397 / 36028797018963968" by simp
    show "binade 1100 (3602879701896397 / 36028797018963968) = - 4" by (simp add: binade_unfold)
    show "pow2 (- 4 - 52) = 1 / 72057594037927936" by (simp add: pow2_def)
    show "round_half_even ((3602879701896397 / 36028797018963968) / (1 / 72057594037927936)) = 7205759403792794"
      by (simp add: round_half_even_def Let_def)
  qed
  then show ?thesis by simp
qed

lemma sum_2: "to_double (28823037615171173 / 36028797018963968) = 7205759403792793 / 9007199254740992"
proof -
  have "to_double (28823037615171173 / 36028797018963968) = of_int 7205759403792793 * (1 / 9007199254740992)"
  proof (rule to_double_eval [where e = "- 1"])
    show "(0::real) < 28823037615171173 / 36028797018963968" by simp
    show "binade 1100 (28823037615171173 / 36028797018963968) = - 1" by (simp add: binade_unfold)
    show "pow2 (- 1 - 52) = 1 / 9007199254740992" by (simp add: pow2_def)
    show "round_half_even ((28823037615171173 / 36028797018963968) / (1 / 9007199254740992)) = 7205759403792793"
      by (simp add: round_half_even_def Let_def)
  qed
  then show ?thesis by simp
qed

lemma product_3: "to_double (10808639105689191 / 72057594037927936) = 1351079888211149 / 9007199254740992"
proof -
  have "to_double (10808639105689191 / 72057594037927936) = of_int 5404319552844596 * (1 / 36028797018963968)"
  proof (rule to_double_eval [where e = "- 3"])
    show "(0::real) < 10808639105689191 / 72057594037927936" by simp
    show "binade 1100 (10808639105689191 / 72057594037927936) = - 3" by (simp add: binade_unfold)
    show "pow2 (- 3 - 52) = 1 / 36028797018963968" by (simp add: pow2_def)
    show "round_half_even ((10808639105689191 / 72057594037927936) / (1 / 36028797018963968)) = 5404319552844596"
      by (simp add: round_half_even_def Let_def)
  qed
  then show ?thesis by simp
qed

lemma sum_3: "to_double (7656119366529843 / 9007199254740992) = 7656119366529843 / 9007199254740992"
proof -
  have "to_double (7656119366529843 / 9007199254740992) = of_int 7656119366529843 * (1 / 9007199254740992)"
  proof (rule to_double_eval [where e = "- 1"])
    show "(0::real) < 7656119366529843 / 9007199254740992" by simp
    show "binade 1100 (7656119366529843 / 9007199254740992) = - 1" by (simp add: binade_unfold)
    show "pow2 (- 1 - 52) = 1 / 9007199254740992" by (simp add: pow2_def)
    show "round_half_even ((7656119366529843 / 9007199254740992) / (1 / 9007199254740992)) = 7656119366529843"
      by (simp add: round_half_even_def Let_def)
  qed
  then show ?thesis by simp
qed

lemma product_4: "to_double (3602879701896397 / 18014398509481984) = 3602879701896397 / 18014398509481984"
proof -
  have "to_double (3602879701896397 / 18014398509481984) = of_int 7205759403792794 * (1 / 36028797018963968)"
  proof (rule to_double_eval [where e = "- 3"])
    show "(0::real) < 3602879701896397 / 18014398509481984" by simp
    show "binade 1100 (3602879701896397 / 18014398509481984) = - 3" by (simp add: binade_unfold)
    show "pow2 (- 3 - 52) = 1 / 36028797018963968" by (simp add: pow2_def)
    show "round_half_even ((3602879701896397 / 18014398509481984) / (1 / 36028797018963968)) = 7205759403792794"
      by (simp add: round_half_even_def Let_def)
  qed
  then show ?thesis by simp
qed

lemma sum_4: "to_double (16212958658533785 / 18014398509481984) = 2026619832316723 / 2251799813685248"
proof -
  have "to_double (16212958658533785 / 18014398509481984) = of_int 8106479329266892 * (1 / 9007199254740992)"
  proof (rule to_double_eval [where e = "- 1"])
    show "(0::real) < 16212958658533785 / 18014398509481984" by simp
    show "binade 1100 (16212958658533785 / 18014398509481984) = - 1" by (simp add: binade_unfold)
    show "pow2 (- 1 - 52) = 1 / 9007199254740992" by (simp add: pow2_def)
    show "round_half_even ((16212958658533785 / 18014398509481984) / (1 / 9007199254740992)) = 8106479329266892"
      by (simp add: round_half_even_def Let_def)
  qed
  then show ?thesis by simp
qed

lemma product_5: "to_double (18014398509481985 / 72057594037927936) = 1 / 4"
proof -
  have "to_double (18014398509481985 / 72057594037927936) = of_int 4503599627370496 * (1 / 18014398509481984)"
  proof (rule to_double_eval [where e = "- 2"])
    show "(0::real) < 18014398509481985 / 72057594037927936" by simp
    show "binade 1100 (18014398509481985 / 72057594037927936) = - 2" by (simp add: binade_unfold)
    show "pow2 (- 2 - 52) = 1 / 18014398509481984" by (simp add: pow2_def)
    show "round_half_even ((18014398509481985 / 72057594037927936) / (1 / 18014398509481984)) = 4503599627370496"
      by (simp add: round_half_even_def Let_def)
  qed
  then show ?thesis by simp
qed

lemma sum_5: "to_double (4278419646001971 / 4503599627370496) = 4278419646001971 / 4503599627370496"
proof -
  have "to_double (4278419646001971 / 4503599627370496) = of_int 8556839292003942 * (1 / 9007199254740992)"
  proof (rule to_double_eval [where e = "- 1"])
    show "(0::real) < 4278419646001971 / 4503599627370496" by simp
    show "binade 1100 (4278419646001971 / 4503599627370496) = - 1" by (simp add: binade_unfold)
    show "pow2 (- 1 - 52) = 1 / 9007199254740992" by (simp add: pow2_def)
    show "round_half_even ((4278419646001971 / 4503599627370496) / (1 / 9007199254740992)) = 8556839292003942"
      by (simp add: round_half_even_def Let_def)
  qed
  then show ?thesis by simp
qed

lemma product_6: "to_double (10808639105689191 / 36028797018963968) = 1351079888211149 / 4503599627370496"
proof -
  have "to_double (10808639105689191 / 36028797018963968) = of_int 5404319552844596 * (1 / 18014398509481984)"
  proof (rule to_double_eval [where e = "- 2"])
    show "(0::real) < 10808639105689191 / 36028797018963968" by simp
    show "binade 1100 (10808639105689191 / 36028797018963968) = - 2" by (simp add: binade_unfold)
    show "pow2 (- 2 - 52) = 1 / 18014398509481984" by (simp add: pow2_def)
    show "round_half_even ((10808639105689191 / 36028797018963968) / (1 / 18014398509481984)) = 5404319552844596"
      by (simp add: round_half_even_def Let_def)
  qed
  then show ?thesis by simp
qed

lemma sum_6: "to_double (1) = 1"
proof -
  have "to_double (1) = of_int 4503599627370496 * (1 / 4503599627370496)"
  proof (rule to_double_eval [where e = "0"])
    show "(0::real) < 1" by simp
    show "binade 1100 (1) = 0" by (simp add: binade_unfold)
    show "pow2 (0 - 52) = 1 / 4503599627370496" by (simp add: pow2_def)
    show "round_half_even ((1) / (1 / 4503599627370496)) = 4503599627370496"
      by (simp add: round_half_even_def Let_def)
  qed
  then show ?thesis by simp
qed

lemma double_1_20: "to_double (1 / 20) = 3602879701896397 / 72057594037927936"
  using double_0_05 by simp

lemma confidence_at_0:
  "min (to_double (to_double 0.7 + to_double (0 * to_double 0.05))) (to_double 0.95) =
     3152519739159347 / 4503599627370496"
proof -
  have p: "0 * to_double 0.05 = (0 :: real)" by (simp add: double_1_20)
  have q: "to_double (0 :: real) = 0" by (simp add: to_double_def)
  have s: "to_double 0.7 + (0) = (3152519739159347 / 4503599627370496 :: real)" by (simp add: double_0_7)
  have m: "min (3152519739159347 / 4503599627370496) (4278419646001971 / 4503599627370496) = (3152519739159347 / 4503599627370496 :: real)" by simp
  show ?thesis by (simp only: p q s sum_0 double_0_95 m)
qed

lemma confidence_at_1:
  "min (to_double (to_double 0.7 + to_double (1 * to_double 0.05))) (to_double 0.95) =
     3 / 4"
proof -
  have p: "1 * to_double 0.05 = (3602879701896397 / 72057594037927936 :: real)" by (simp add: double_1_20)
  note q = product_1
  have s: "to_double 0.7 + (3602879701896397 / 72057594037927936) = (54043195528445949 / 72057594037927936 :: real)" by (simp add: double_0_7)
  have m: "min (3 / 4) (4278419646001971 / 4503599627370496) = (3 / 4 :: real)" by simp
  show ?thesis by (simp only: p q s sum_1 double_0_95 m)
qed

lemma confidence_at_2:
  "min (to_double (to_double 0.7 + to_double (2 * to_double 0.05))) (to_double 0.95) =
     7205759403792793 / 9007199254740992"
proof -
  have p: "2 * to_double 0.05 = (3602879701896397 / 36028797018963968 :: real)" by (simp add: double_1_20)
  note q = product_2
  have s: "to_double 0.7 + (3602879701896397 / 36028797018963968) = (28823037615171173 / 36028797018963968 :: real)" by (simp add: double_0_7)
  have m: "min (7205759403792793 / 9007199254740992) (4278419646001971 / 4503599627370496) = (7205759403792793 / 9007199254740992 :: real)" by simp
  show ?thesis by (simp only: p q s sum_2 double_0_95 m)
qed

lemma confidence_at_3:
  "min (to_double (to_double 0.7 + to_double (3 * to_double 0.05))) (to_double 0.95) =
     7656119366529843 / 9007199254740992"
proof -
  have p: "3 * to_double 0.05 = (10808639105689191 / 72057594037927936 :: real)" by (simp add: double_1_20)
  note q = product_3
  have s: "to_double 0.7 + (1351079888211149 / 9007199254740992) = (7656119366529843 / 9007199254740992 :: real)" by (simp add: double_0_7)
  have m: "min (7656119366529843 / 9007199254740992) (4278419646001971 / 4503599627370496) = (7656119366529843 / 9007199254740992 :: real)" by simp
  show ?thesis by (simp only: p q s sum_3 double_0_95 m)
qed

lemma confidence_at_4:
  "min (to_double (to_double 0.7 + to_double (4 * to_double 0.05))) (to_double 0.95) =
     2026619832316723 / 2251799813685248"
proof -
  have p: "4 * to_double 0.05 = (3602879701896397 / 18014398509481984 :: real)" by (simp add: double_1_20)
  note q = product_4
  have s: "to_double 0.7 + (3602879701896397 / 18014398509481984) = (16212958658533785 / 18014398509481984 :: real)" by (simp add: double_0_7)
  have m: "min (2026619832316723 / 2251799813685248) (4278419646001971 / 4503599627370496) = (2026619832316723 / 2251799813685248 :: real)" by simp
  show ?thesis by (simp only: p q s sum_4 double_0_95 m)
qed

lemma confidence_at_5:
  "min (to_double (to_double 0.7 + to_double (5 * to_double 0.05))) (to_double 0.95) =
     4278419646001971 / 4503599627370496"
proof -
  have p: "5 * to_double 0.05 = (18014398509481985 / 72057594037927936 :: real)" by (simp add: double_1_20)
  note q = product_5
  have s: "to_double 0.7 + (1 / 4) = (4278419646001971 / 4503599627370496 :: real)" by (simp add: double_0_7)
  have m: "min (4278419646001971 / 4503599627370496) (4278419646001971 / 4503599627370496) = (4278419646001971 / 4503599627370496 :: real)" by simp
  show ?thesis by (simp only: p q s sum_5 double_0_95 m)
qed

lemma confidence_at_6:
  "min (to_double (to_double 0.7 + to_double (6 * to_double 0.05))) (to_double 0.95) =
     4278419646001971 / 4503599627370496"
proof -
  have p: "6 * to_double 0.05 = (10808639105689191 / 36028797018963968 :: real)" by (simp add: double_1_20)
  note q = product_6
  have s: "to_double 0.7 + (1351079888211149 / 4503599627370496) = (1 :: real)" by (simp add: double_0_7)
  have m: "min (1) (4278419646001971 / 4503599627370496) = (4278419646001971 / 4503599627370496 :: real)" by simp
  show ?thesis by (simp only: p q s sum_6 double_0_95 m)
qed

lemma confidence_by_count:
  assumes "n \<le> 6"
  shows "min (to_double (to_double 0.7 + to_double (real n * to_double 0.05))) (to_double 0.95) =
     [3152519739159347 / 4503599627370496, 3 / 4, 7205759403792793 / 9007199254740992,
      7656119366529843 / 9007199254740992, 2026619832316723 / 2251799813685248,
      4278419646001971 / 4503599627370496, 4278419646001971 / 4503599627370496] ! n"
proof -
  from assms consider "n = 0" | "n = 1" | "n = 2" | "n = 3" | "n = 4" | "n = 5" | "n = 6"
    by linarith
  then show ?thesis
  proof cases
    case 1
    then show ?thesis by (simp only: of_nat_0 confidence_at_0) simp
  next
    case 2
    then show ?thesis by (simp only: of_nat_1 confidence_at_1) simp
  next
    case 3
    then show ?thesis by (simp only: of_nat_numeral confidence_at_2) simp
  next
    case 4
    then show ?thesis by (simp only: of_nat_numeral confidence_at_3) simp
  next
    case 5
    then show ?thesis by (simp only: of_nat_numeral confidence_at_4) simp
  next
    case 6
    then show ?thesis by (simp only: of_nat_numeral confidence_at_5) simp
  next
    case 7
    then show ?thesis by (simp only: of_nat_numeral confidence_at_6) simp
  qed
qed

lemma confidence_table_close:
  assumes "n \<le> 6"
  shows "\<bar>[3152519739159347 / 4503599627370496, 3 / 4, 7205759403792793 / 9007199254740992,
      7656119366529843 / 9007199254740992, 2026619832316723 / 2251799813685248,
      4278419646001971 / 4503599627370496, 4278419646001971 / 4503599627370496] ! n -
     min (0.7 + 0.05 * real n) 0.95\<bar> < 1 / 2 ^ 53 \<and>
    0 \<le> [3152519739159347 / 4503599627370496, 3 / 4, 7205759403792793 / 9007199254740992,
      7656119366529843 / 9007199254740992, 2026619832316723 / 2251799813685248,
      4278419646001971 / 4503599627370496, 4278419646001971 / (4503599627370496 :: real)] ! n \<and>
    [3152519739159347 / 4503599627370496, 3 / 4, 7205759403792793 / 9007199254740992,
      7656119366529843 / 9007199254740992, 2026619832316723 / 2251799813685248,
      4278419646001971 / 4503599627370496, 4278419646001971 / (4503599627370496 :: real)] ! n \<le> 1"
proof -
  from assms consider "n = 0" | "n = 1" | "n = 2" | "n = 3" | "n = 4" | "n = 5" | "n = 6"
    by linarith
  then show ?thesis
    by cases simp_all
qed

lemma detailMarkers_count:
  "length (filter P detailMarkers) =
   card {k \<in> {''feature'', ''benefit'', ''cover'', ''policy'', ''premium'', ''underwriting''}. P k}"
proof -
  have d: "distinct detailMarkers" by (simp add: detailMarkers_def)
  have "{k \<in> {''feature'', ''benefit'', ''cover'', ''policy'', ''premium'', ''underwriting''}. P k} =
      {x. P x} \<inter> set detailMarkers"
    by (auto simp: detailMarkers_def)
  with distinct_length_filter [OF d, of P] show ?thesis by simp
qed

lemma detailMarkers_at_most_6: "length (filter P detailMarkers) \<le> 6"
proof -
  have "length (filter P detailMarkers) \<le> length detailMarkers" by (rule length_filter_le)
  then show ?thesis by (simp add: detailMarkers_def)
qed

lemma calculateConfidence_no_information:
  "includes_str response ''I don't have specific information'' \<Longrightarrow>
   calculateConfidence response = 1 / 2"
  by (simp only: calculateConfidence_def if_True double_0_5)

lemma calculateConfidence_apology:
  assumes "\<not> includes_str response ''I don't have specific information''"
    and "includes_str response ''I apologize'' \<or> includes_str response ''I'm having trouble''"
  shows "calculateConfidence response = 5404319552844595 / 18014398509481984"
  using assms by (simp only: calculateConfidence_def if_True if_False double_0_3)

lemma calculateConfidence_details:
  assumes "\<not> includes_str response ''I don't have specific information''"
    and "\<not> includes_str response ''I apologize''"
    and "\<not> includes_str response ''I'm having trouble''"
  shows "calculateConfidence response =
     [3152519739159347 / 4503599627370496, 3 / 4, 7205759403792793 / 9007199254740992,
      7656119366529843 / 9007199254740992, 2026619832316723 / 2251799813685248,
      4278419646001971 / 4503599627370496, 4278419646001971 / 4503599627370496] !
     card {k \<in> {''feature'', ''benefit'', ''cover'', ''policy'', ''premium'', ''underwriting''}.
             includes_str response k}"
proof -
  let ?n = "length (filter (\<lambda>marker. includes_str response marker) detailMarkers)"
  from assms have "calculateConfidence response =
      min (to_double (to_double 0.7 + to_double (real ?n * to_double 0.05))) (to_double 0.95)"
    by (simp only: calculateConfidence_def Let_def if_False simp_thms)
  also have "\<dots> = [3152519739159347 / 4503599627370496, 3 / 4,
      7205759403792793 / 9007199254740992, 7656119366529843 / 9007199254740992,
      2026619832316723 / 2251799813685248, 4278419646001971 / 4503599627370496,
      4278419646001971 / 4503599627370496] ! ?n"
    by (rule confidence_by_count) (rule detailMarkers_at_most_6)
  finally show ?thesis by (simp only: detailMarkers_count)
qed

lemma premium_answer_unmarked:
  "\<not> includes_str ''This policy has a level premium.'' ''I don't have specific information'' \<and>
   \<not> includes_str ''This policy has a level premium.'' ''I apologize'' \<and>
   \<not> includes_str ''This policy has a level premium.'' ''I'm having trouble''"
  by code_simp

lemma premium_answer_details:
  "length (filter (includes_str ''This policy has a level premium.'') detailMarkers) = 2"
  by code_simp

lemma premium_answer_card:
  "card {k \<in> {''feature'', ''benefit'', ''cover'', ''policy'', ''premium'', ''underwriting''}.
      includes_str ''This policy has a level premium.'' k} = 2"
  by (simp only: detailMarkers_count [symmetric] premium_answer_details)

text \<open>
  C6 says that the confidence is \<open>min (0.7 + 0.05 * n) 0.95\<close> when the response holds neither
  marker text. "This policy has a level premium." holds two of the six words, and its
  confidence is the double 0.7999999999999999, not 0.8.
\<close>

theorem calculateConfidence_counterexample:
  "\<not> includes_str ''This policy has a level premium.'' ''I don't have specific information'' \<and>
   \<not> includes_str ''This policy has a level premium.'' ''I apologize'' \<and>
   \<not> includes_str ''This policy has a level premium.'' ''I'm having trouble'' \<and>
   card {k \<in> {''feature'', ''benefit'', ''cover'', ''policy'', ''premium'', ''underwriting''}.
      includes_str ''This policy has a level premium.'' k} = 2 \<and>
   calculateConfidence ''This policy has a level premium.'' =
     7205759403792793 / 9007199254740992 \<and>
   calculateConfidence ''This policy has a level premium.'' \<noteq>
     min (0.7 + 0.05 * real (card {k \<in> {''feature'', ''benefit'', ''cover'', ''policy'',
       ''premium'', ''underwriting''}. includes_str ''This policy has a level premium.'' k})) 0.95"
proof -
  have v: "calculateConfidence ''This policy has a level premium.'' =
      7205759403792793 / 9007199254740992"
  proof -
    from premium_answer_unmarked
    have "calculateConfidence ''This policy has a level premium.'' =
        [3152519739159347 / 4503599627370496, 3 / 4, 7205759403792793 / 9007199254740992,
         7656119366529843 / 9007199254740992, 2026619832316723 / 2251799813685248,
         4278419646001971 / 4503599627370496, 4278419646001971 / 4503599627370496] !
        card {k \<in> {''feature'', ''benefit'', ''cover'', ''policy'', ''premium'', ''underwriting''}.
                includes_str ''This policy has a level premium.'' k}"
      by (intro calculateConfidence_details) blast+
    then show ?thesis
      by (simp only: premium_answer_card) simp
  qed
  have "(7205759403792793 / 9007199254740992 :: real) \<noteq> min (0.7 + 0.05 * real (2::nat)) 0.95"
    by simp
  with v premium_answer_unmarked premium_answer_card show ?thesis
    by (simp only: simp_thms)
qed

text \<open>
  C6, amended: the confidence of a response is 0.5 when it contains "I don't have specific
  information"; otherwise the double nearest to 0.3 when it contains "I apologize" or "I'm
  having trouble"; otherwise the double that \<open>Math.min(0.7 + n * 0.05, 0.95)\<close> gives in double
  arithmetic, where \<open>n\<close> is the number of the six words \<open>feature\<close>, \<open>benefit\<close>, \<open>cover\<close>,
  \<open>policy\<close>, \<open>premium\<close>, \<open>underwriting\<close> that occur in it: 0.7, 0.75, 0.7999999999999999, 0.85,
  0.8999999999999999, 0.95 and 0.95 for \<open>n\<close> from 0 to 6, less than \<open>2^-53\<close> away from
  \<open>min (0.7 + 0.05 * n) 0.95\<close>. It always lies between 0 and 1.
\<close>

theorem calculateConfidence_cases:
  "(includes_str response ''I don't have specific information'' \<longrightarrow>
      calculateConfidence response = 0.5) \<and>
   (\<not> includes_str response ''I don't have specific information'' \<and>
    (includes_str response ''I apologize'' \<or> includes_str response ''I'm having trouble'') \<longrightarrow>
      calculateConfidence response = 5404319552844595 / 18014398509481984 \<and>
      \<bar>calculateConfidence response - 0.3\<bar> < 1 / 2 ^ 54) \<and>
   (\<not> includes_str response ''I don't have specific information'' \<and>
    \<not> includes_str response ''I apologize'' \<and> \<not> includes_str response ''I'm having trouble'' \<longrightarrow>
      calculateConfidence response =
        [3152519739159347 / 4503599627370496, 3 / 4, 7205759403792793 / 9007199254740992,
         7656119366529843 / 9007199254740992, 2026619832316723 / 2251799813685248,
         4278419646001971 / 4503599627370496, 4278419646001971 / 4503599627370496] !
        card {k \<in> {''feature'', ''benefit'', ''cover'', ''policy'', ''premium'', ''underwriting''}.
                includes_str response k} \<and>
      \<bar>calculateConfidence response -
         min (0.7 + 0.05 * real (card {k \<in> {''feature'', ''benefit'', ''cover'', ''policy'',
                ''premium'', ''underwriting''}. includes_str response k})) 0.95\<bar> < 1 / 2 ^ 53) \<and>
   0 \<le> calculateConfidence response \<and> calculateConfidence response \<le> 1"
proof -
  let ?n = "card {k \<in> {''feature'', ''benefit'', ''cover'', ''policy'', ''premium'',
      ''underwriting''}. includes_str response k}"
  have n6: "?n \<le> 6"
    using detailMarkers_at_most_6 [of "includes_str response"]
    by (simp only: detailMarkers_count)
  note close = confidence_table_close [OF n6]
  consider
    (none) "includes_str response ''I don't have specific information''"
  | (apology) "\<not> includes_str response ''I don't have specific information''"
      "includes_str response ''I apologize'' \<or> includes_str response ''I'm having trouble''"
  | (details) "\<not> includes_str response ''I don't have specific information''"
      "\<not> includes_str response ''I apologize''" "\<not> includes_str response ''I'm having trouble''"
    by blast
  then show ?thesis
  proof cases
    case none
    then show ?thesis
      by (simp add: calculateConfidence_no_information)
  next
    case apology
    then show ?thesis
      by (auto simp: calculateConfidence_apology)
  next
    case details
    from details have "calculateConfidence response =
        [3152519739159347 / 4503599627370496, 3 / 4, 7205759403792793 / 9007199254740992,
         7656119366529843 / 9007199254740992, 2026619832316723 / 2251799813685248,
         4278419646001971 / 4503599627370496, 4278419646001971 / 4503599627370496] ! ?n"
      by (rule calculateConfidence_details)
    with details close show ?thesis
      by (simp only: simp_thms)
  qed
qed

lemma no_information_marked:
  "includes_str ''I don't have specific information about that.''
     ''I don't have specific information''"
  by code_simp

lemma apology_marked:
  "\<not> includes_str ''I apologize for the delay.'' ''I don't have specific information'' \<and>
   (includes_str ''I apologize for the delay.'' ''I apologize'' \<or>
    includes_str ''I apologize for the delay.'' ''I'm having trouble'')"
  by code_simp

lemma level_cover_unmarked:
  "\<not> includes_str ''Level cover at a fixed price.'' ''I don't have specific information'' \<and>
   \<not> includes_str ''Level cover at a fixed price.'' ''I apologize'' \<and>
   \<not> includes_str ''Level cover at a fixed price.'' ''I'm having trouble''"
  by code_simp

lemma level_cover_details:
  "length (filter (includes_str ''Level cover at a fixed price.'') detailMarkers) = 1"
  by code_simp

theorem calculateConfidence_cases_witness:
  "calculateConfidence ''I don't have specific information about that.'' = 0.5 \<and>
   calculateConfidence ''I apologize for the delay.'' = 5404319552844595 / 18014398509481984 \<and>
   calculateConfidence ''Level cover at a fixed price.'' = 0.75"
proof (intro conjI)
  from calculateConfidence_cases [of "''I don't have specific information about that.''"]
    no_information_marked
  show "calculateConfidence ''I don't have specific information about that.'' = 0.5"
    by blast
next
  from calculateConfidence_cases [of "''I apologize for the delay.''"] apology_marked
  show "calculateConfidence ''I apologize for the delay.'' =
      5404319552844595 / 18014398509481984"
    by blast
next
  have c: "card {k \<in> {''feature'', ''benefit'', ''cover'', ''policy'', ''premium'',
      ''underwriting''}. includes_str ''Level cover at a fixed price.'' k} = 1"
    by (simp only: detailMarkers_count [symmetric] level_cover_details)
  from calculateConfidence_cases [of "''Level cover at a fixed price.''"] level_cover_unmarked
  have "calculateConfidence ''Level cover at a fixed price.'' =
        [3152519739159347 / 4503599627370496, 3 / 4, 7205759403792793 / 9007199254740992,
         7656119366529843 / 9007199254740992, 2026619832316723 / 2251799813685248,
         4278419646001971 / 4503599627370496, 4278419646001971 / 4503599627370496] !
        card {k \<in> {''feature'', ''benefit'', ''cover'', ''policy'', ''premium'', ''underwriting''}.
                includes_str ''Level cover at a fixed price.'' k}"
    by blast
  then show "calculateConfidence ''Level cover at a fixed price.'' = 0.75"
    by (simp only: c) simp
qed

section \<open>Failures inside the response generator\<close>

text \<open>
  When the last two earlier messages hold one of the back-references, \<open>applyContext\<close> reaches
  \<open>extractTermsFromMessages\<close>, whose first statement calls \<open>getAllTerms\<close>.
\<close>

lemma continue_conversation_getAllTerms:
  assumes "pm \<noteq> []"
    and "list_ex (\<lambda>msg. list_ex (\<lambda>ref. includes_str (toLowerCase msg) ref) back_references)
           (drop (length pm - 2) pm)"
  shows "continue_conversation getAllTerms response (Some pm) =
     Inl (TypeError ''this.knowledgeBase.getAllTerms is not a function'')"
  using assms
  by (simp add: continue_conversation_def extractTermsFromMessages_with_def getAllTerms_def
      Let_def)

lemma generateResponse_body_getAllTerms:
  assumes "previousMessages context = Some pm" and "pm \<noteq> []"
    and "list_ex (\<lambda>msg. list_ex (\<lambda>ref. includes_str (toLowerCase msg) ref) back_references)
           (drop (length pm - 2) pm)"
  shows "generateResponse_body context =
     Inl (TypeError ''this.knowledgeBase.getAllTerms is not a function'')"
  using assms continue_conversation_getAllTerms [OF assms(2,3)]
  by (simp add: generateResponse_body_def applyContext_def applyContext_with_def Let_def)

text \<open>
  C7: whenever anything inside \<open>generateResponse\<close> throws, the result is the fixed apology,
  the three fixed suggestions and the confidence 1; nothing in it depends on the input.
\<close>

theorem generateResponse_failure:
  "generateResponse_body context = Inl e \<Longrightarrow>
   generateResponse context =
     \<lparr>message = ''I apologize, but I'm having trouble processing your request. Please try rephrasing your question or contact our support team for assistance.'',
      suggestions = Some [''Can you explain your insurance needs?'',
                          ''What type of coverage are you looking for?'',
                          ''Would you like to speak with an insurance agent?''],
      relatedTopics = None,
      confidence = 1\<rparr>"
  by (simp add: generateResponse_def generateErrorResponse_def)

lemma what_about_it_refers:
  "list_ex (\<lambda>msg. list_ex (\<lambda>ref. includes_str (toLowerCase msg) ref) back_references)
     (drop (length [''What about it?''] - 2) [''What about it?''])"
  by code_simp

theorem generateResponse_failure_witness:
  "generateResponse \<lparr>userQuery = ''How much coverage do I need?'',
       previousMessages = Some [''What about it?''],
       userData = None\<rparr> =
     \<lparr>message = ''I apologize, but I'm having trouble processing your request. Please try rephrasing your question or contact our support team for assistance.'',
      suggestions = Some [''Can you explain your insurance needs?'',
                          ''What type of coverage are you looking for?'',
                          ''Would you like to speak with an insurance agent?''],
      relatedTopics = None,
      confidence = 1\<rparr>"
proof -
  have "generateResponse_body \<lparr>userQuery = ''How much coverage do I need?'',
       previousMessages = Some [''What about it?''],
       userData = None\<rparr> = Inl (TypeError ''this.knowledgeBase.getAllTerms is not a function'')"
    by (rule generateResponse_body_getAllTerms [OF _ _ what_about_it_refers]) simp_all
  then show ?thesis by (rule generateResponse_failure)
qed

section \<open>Back-references to earlier messages\<close>

lemma premium_talk_refers:
  "list_ex (\<lambda>msg. list_ex (\<lambda>ref. includes_str (toLowerCase msg) ref) back_references)
     (drop (length [''What is a premium?'', ''Is it expensive?''] - 2)
        [''What is a premium?'', ''Is it expensive?''])"
  by code_simp

text \<open>
  C2 says that, when the last two earlier messages hold a back-reference and name a known term,
  the message is the contextualized response behind "Regarding {term}, ". The code calls
  \<open>getAllTerms\<close>, which the knowledge base does not have: for the earlier messages
  "What is a premium?" and "Is it expensive?" the result is the error response, not a message
  that starts "Regarding Premium, ".
\<close>

theorem generateResponse_back_reference:
  "generateResponse \<lparr>userQuery = ''Tell me more'',
       previousMessages = Some [''What is a premium?'', ''Is it expensive?''],
       userData = None\<rparr> =
     \<lparr>message = ''I apologize, but I'm having trouble processing your request. Please try rephrasing your question or contact our support team for assistance.'',
      suggestions = Some [''Can you explain your insurance needs?'',
                          ''What type of coverage are you looking for?'',
                          ''Would you like to speak with an insurance agent?''],
      relatedTopics = None,
      confidence = 1\<rparr>"
proof -
  have "generateResponse_body \<lparr>userQuery = ''Tell me more'',
       previousMessages = Some [''What is a premium?'', ''Is it expensive?''],
       userData = None\<rparr> = Inl (TypeError ''this.knowledgeBase.getAllTerms is not a function'')"
    by (rule generateResponse_body_getAllTerms [OF _ _ premium_talk_refers]) simp_all
  then show ?thesis
    by (simp add: generateResponse_def generateErrorResponse_def)
qed

theorem generateResponse_back_reference_witness:
  "message (generateResponse \<lparr>userQuery = ''Tell me more'',
       previousMessages = Some [''What is a premium?'', ''Is it expensive?''],
       userData = None\<rparr>) =
     ''I apologize, but I'm having trouble processing your request. Please try rephrasing your question or contact our support team for assistance.'' \<and>
   \<not> prefix ''Regarding ''
     (message (generateResponse \<lparr>userQuery = ''Tell me more'',
       previousMessages = Some [''What is a premium?'', ''Is it expensive?''],
       userData = None\<rparr>))"
  by (simp add: generateResponse_back_reference)

text \<open>
  Were \<open>getAllTerms\<close> to return the terms of the table, the term found would be looked up with
  \<open>findTerm\<close> in \<open>insuranceTerms\<close>, another table: \<open>premium\<close> is found there and prefixed,
  \<open>term life insurance\<close> is not, and the response stays as it was.
\<close>

lemma table_terms_premium:
  "continue_conversation (Inr (map kb_term entries)) ''Premiums vary.''
     (Some [''What is a premium?'', ''Is it expensive?'']) = Inr ''Premiums vary.''"
  by code_simp

lemma table_terms_premium_prefixed:
  "continue_conversation (Inr (map kb_term entries)) ''Costs vary.''
     (Some [''What is a premium?'', ''Is it expensive?'']) = Inr ''Regarding Premium, Costs vary.''"
  by code_simp

lemma table_terms_term_life:
  "continue_conversation (Inr (map kb_term entries)) ''Costs vary.''
     (Some [''How does term life insurance work?'', ''Is it expensive?'']) = Inr ''Costs vary.''"
  by code_simp

section \<open>Policy types of the extractor and the policy table\<close>

lemma findPolicyType_term: "findPolicyType ''term'' = None"
  by code_simp

lemma findPolicyType_whole: "findPolicyType ''whole'' = None"
  by code_simp

lemma findPolicyType_universal: "findPolicyType ''universal'' = None"
  by code_simp

lemma findPolicyType_variable: "findPolicyType ''variable'' = None"
  by code_simp

lemma findPolicyType_extracted: "findPolicyType (policyType_string p) = None"
  by (cases p)
    (simp_all add: findPolicyType_term findPolicyType_whole findPolicyType_universal
      findPolicyType_variable)

text \<open>
  C10: for each policy type that \<open>extractContextFromQuery\<close> can write into a context (\<open>term\<close>,
  \<open>whole\<close>, \<open>universal\<close>, \<open>variable\<close>), \<open>findPolicyType\<close> finds nothing, since it compares with
  the full names of the table. So for a context of the extractor the policy step of
  \<open>applyContext\<close> leaves the response as it is, and \<open>enhanceResponseWithKnowledgeBase\<close> never
  appends a policy description: it appends the relevant information or nothing.
\<close>

theorem findPolicyType_never_found:
  "policyType_string p \<in> {''term'', ''whole'', ''universal'', ''variable''} \<and>
   findPolicyType ''term'' = None \<and> findPolicyType ''whole'' = None \<and>
   findPolicyType ''universal'' = None \<and> findPolicyType ''variable'' = None \<and>
   findPolicyType (policyType_string p) = None \<and>
   (case policyType (extractContextFromQuery query category) of
      None \<Rightarrow> True
    | Some extracted \<Rightarrow> findPolicyType (policyType_string extracted) = None) \<and>
   personalize_policy response (Some (extractContextFromQuery query category)) = response \<and>
   enhanceResponseWithKnowledgeBase aiResponse asked (extractContextFromQuery query category)
       category' =
     (if findRelevantInformation asked \<noteq> [] \<and>
         \<not> includes_ci aiResponse (findRelevantInformation asked)
      then aiResponse @ additional_information @ findRelevantInformation asked
      else aiResponse)"
proof (intro conjI)
  show "policyType_string p \<in> {''term'', ''whole'', ''universal'', ''variable''}"
    by (cases p) simp_all
  show "case policyType (extractContextFromQuery query category) of
      None \<Rightarrow> True
    | Some extracted \<Rightarrow> findPolicyType (policyType_string extracted) = None"
    by (simp add: findPolicyType_extracted split: option.split)
  show "personalize_policy response (Some (extractContextFromQuery query category)) = response"
    by (simp add: personalize_policy_def findPolicyType_extracted split: option.split)
  show "enhanceResponseWithKnowledgeBase aiResponse asked
       (extractContextFromQuery query category) category' =
     (if findRelevantInformation asked \<noteq> [] \<and>
         \<not> includes_ci aiResponse (findRelevantInformation asked)
      then aiResponse @ additional_information @ findRelevantInformation asked
      else aiResponse)"
    by (simp add: enhanceResponseWithKnowledgeBase_def Let_def findPolicyType_extracted
        includes_ci_def split: option.split)
qed (simp_all add: findPolicyType_term findPolicyType_whole findPolicyType_universal
      findPolicyType_variable findPolicyType_extracted)

lemma term_life_extracted:
  "policyType (extractContextFromQuery ''Is Term Life cheaper?'' Policy) = Some Term"
  by code_simp

theorem findPolicyType_never_found_witness:
  "policyType (extractContextFromQuery ''Is Term Life cheaper?'' Policy) = Some Term \<and>
   findPolicyType (policyType_string Term) = None \<and>
   personalize_policy ''Key features include: {{features}}''
     (Some (extractContextFromQuery ''Is Term Life cheaper?'' Policy)) =
     ''Key features include: {{features}}''"
  using findPolicyType_never_found [where p = Term and query = "''Is Term Life cheaper?''"
      and category = Policy and response = "''Key features include: {{features}}''"]
    term_life_extracted
  by blast

section \<open>processQuery always answers\<close>

lemma processQuery_with_resolves:
  "\<exists>answer. processQuery_with gen useAI override completion query = Inr answer"
  by (simp add: processQuery_with_def Let_def split: sum.split)

lemma processQuery_resolves:
  "\<exists>answer. processQuery useAI override completion query = Inr answer"
  unfolding processQuery_def by (rule processQuery_with_resolves)

text \<open>
  C9: \<open>processQuery\<close> resolves to a string for every query, model override and behaviour of the
  language model, and never rejects: also with a response generator that may reject. When
  both the language model and the response generator throw, the answer is the fixed sentence
  that starts "Sorry, I'm having trouble answering that question about insurance."
\<close>

theorem processQuery_total:
  "(\<exists>answer. processQuery_with gen useAI override completion query = Inr answer) \<and>
   (\<exists>answer. processQuery useAI override completion query = Inr answer) \<and>
   (completion = Inl e \<and>
    gen \<lparr>userQuery = query, previousMessages = None,
         userData = Some (extractContextFromQuery query (categorizeQuestion query))\<rparr> = Inl e'
    \<longrightarrow> processQuery_with gen useAI override completion query =
          Inr ''Sorry, I'm having trouble answering that question about insurance. Please try rephrasing it or ask something else.'')"
proof (intro conjI impI)
  show "\<exists>answer. processQuery_with gen useAI override completion query = Inr answer"
    by (rule processQuery_with_resolves)
  show "\<exists>answer. processQuery useAI override completion query = Inr answer"
    by (rule processQuery_resolves)
next
  assume "completion = Inl e \<and>
    gen \<lparr>userQuery = query, previousMessages = None,
         userData = Some (extractContextFromQuery query (categorizeQuestion query))\<rparr> = Inl e'"
  then show "processQuery_with gen useAI override completion query =
          Inr ''Sorry, I'm having trouble answering that question about insurance. Please try rephrasing it or ask something else.''"
    by (simp add: processQuery_with_def Let_def trouble_answering_def)
qed

theorem processQuery_total_witness:
  "processQuery_with (\<lambda>context. Inl (Error ''no response'')) None None
     (Inl (Error ''model unavailable'')) ''What is term life insurance?'' =
     Inr ''Sorry, I'm having trouble answering that question about insurance. Please try rephrasing it or ask something else.'' \<and>
   (\<exists>answer. processQuery None None (Inl (Error ''model unavailable''))
      ''What is term life insurance?'' = Inr answer)"
  using processQuery_total [of "\<lambda>context. Inl (Error ''no response'')" None None
      "Inl (Error ''model unavailable'')" "''What is term life insurance?''"
      "Error ''model unavailable''" "Error ''no response''"]
  by simp

section \<open>A rejecting language model\<close>

lemma processQuery_rejected_model:
  "processQuery useAI override (Inl e) query =
     Inr (message (generateResponse \<lparr>userQuery = query, previousMessages = None,
            userData = Some (extractContextFromQuery query (categorizeQuestion query))\<rparr>))"
  by (simp add: processQuery_def processQuery_with_def Let_def)

text \<open>
  C4: when the language model rejects, \<open>processQuery\<close> resolves with the message that the
  response generator gives for the same query and the context extracted from it; and in the
  hook the turn ends with the error still \<open>null\<close> and with the user message and an assistant
  message of that content appended.
\<close>

theorem model_rejection_falls_back:
  "processQuery useAI override (Inl e) query =
     Inr (message (generateResponse \<lparr>userQuery = query, previousMessages = None,
            userData = Some (extractContextFromQuery query (categorizeQuestion query))\<rparr>)) \<and>
   error (sendMessage useAI (Inl e) query s) = None \<and>
   messages (sendMessage useAI (Inl e) query s) =
     messages s @
       [\<lparr>content = query, role = User, msg_category = None, msg_suggestions = None\<rparr>,
        \<lparr>content = message (generateResponse \<lparr>userQuery = query, previousMessages = None,
            userData = Some (extractContextFromQuery query (categorizeQuestion query))\<rparr>),
         role = Assistant, msg_category = Some (categorizeQuestion query),
         msg_suggestions = Some (generateFollowUpQuestions (categorizeQuestion query) query)\<rparr>]"
  by (simp add: processQuery_rejected_model sendMessage_def sendMessage_settle_def
      sendMessage_settle_with_def sendMessage_begin_def Let_def)

lemma fallback_message_term_life:
  \<open>message (generateResponse \<lparr>userQuery = ''What is term life insurance?'',
      previousMessages = None,
      userData = Some (extractContextFromQuery ''What is term life insurance?''
        (categorizeQuestion ''What is term life insurance?''))\<rparr>) =
   ''I don't have specific information about "policy_explanation" in my knowledge base. Would you like to know about term life insurance, whole life insurance, or another insurance topic?''\<close>
  by code_simp

theorem model_rejection_falls_back_witness:
  \<open>processQuery None None (Inl (Error ''model unavailable''))
     ''What is term life insurance?'' =
     Inr ''I don't have specific information about "policy_explanation" in my knowledge base. Would you like to know about term life insurance, whole life insurance, or another insurance topic?'' \<and>
   error (sendMessage None (Inl (Error ''model unavailable''))
     ''What is term life insurance?'' (initial_state None [])) = None \<and>
   length (messages (sendMessage None (Inl (Error ''model unavailable''))
     ''What is term life insurance?'' (initial_state None []))) = 2\<close>
  using model_rejection_falls_back [of None None "Error ''model unavailable''"
      "''What is term life insurance?''" "initial_state None []"]
  by (simp add: fallback_message_term_life initial_state_def)

section \<open>A plain dollar amount\<close>

text \<open>
  C1 says that "I want a $500,000 term life policy" gives the policy type \<open>term\<close> and the
  coverage amount 500000. The policy type is \<open>term\<close>; the coverage pattern asks for \<open>k\<close>, \<open>K\<close>,
  \<open>thousand\<close>, \<open>m\<close>, \<open>M\<close> or \<open>million\<close> behind the digits, matches nothing in this text, and
  the context has no coverage amount.
\<close>

theorem extractContextFromQuery_plain_amount:
  "extractContextFromQuery ''I want a $500,000 term life policy''
     (categorizeQuestion ''I want a $500,000 term life policy'') =
   \<lparr>ctx_category = Policy, policyType = Some Term, coverageAmount = None, age = None,
    healthStatus = None\<rparr>"
  by code_simp

theorem extractContextFromQuery_plain_amount_witness:
  "policyType (extractContextFromQuery ''I want a $500,000 term life policy''
     (categorizeQuestion ''I want a $500,000 term life policy'')) = Some Term \<and>
   coverageAmount (extractContextFromQuery ''I want a $500,000 term life policy''
     (categorizeQuestion ''I want a $500,000 term life policy'')) = None"
  by (simp add: extractContextFromQuery_plain_amount)

lemma coverage_match_plain_amount:
  "coverage_match ''I want a $500,000 term life policy'' = None"
  by code_simp

lemma coverage_match_with_suffix:
  "coverage_match ''I want a $500k term life policy'' = Some (Group1 ''500'')"
  by code_simp

section \<open>The length of the transcript\<close>

lemma sendMessage_begin_fields:
  "messages (sendMessage_begin text s) =
     messages s @ [\<lparr>content = text, role = User, msg_category = None, msg_suggestions = None\<rparr>]"
  "isLoading (sendMessage_begin text s)"
  "error (sendMessage_begin text s) = None"
  "lastMessageRef (sendMessage_begin text s) = text"
  "modelOverride (sendMessage_begin text s) = modelOverride s"
  by (simp_all add: sendMessage_begin_def)

lemma sendMessage_settle_with_resolved:
  "messages (sendMessage_settle_with (Inr answer) text s) =
     messages s @ [\<lparr>content = answer, role = Assistant,
        msg_category = Some (categorizeQuestion text),
        msg_suggestions = Some (generateFollowUpQuestions (categorizeQuestion text) text)\<rparr>]"
  "\<not> isLoading (sendMessage_settle_with (Inr answer) text s)"
  "error (sendMessage_settle_with (Inr answer) text s) = error s"
  by (simp_all add: sendMessage_settle_with_def Let_def)

lemma sendMessage_settle_with_rejected:
  "messages (sendMessage_settle_with (Inl err) text s) = messages s"
  "\<not> isLoading (sendMessage_settle_with (Inl err) text s)"
  "error (sendMessage_settle_with (Inl err) text s) =
     Some (case err of
             Thrown v \<Rightarrow> Error ''Failed to process message''
           | TypeError m \<Rightarrow> err
           | Error m \<Rightarrow> err)"
  by (simp_all add: sendMessage_settle_with_def Let_def)

text \<open>A call of \<open>sendMessage\<close> that runs alone is a call of the session.\<close>

lemma sendMessage_is_call:
  "sendMessage useAI completion text s =
     run_call initialMessages s
       (SendMessage text (processQuery useAI (modelOverride s) completion text))"
  by (simp add: sendMessage_def sendMessage_settle_def sendMessage_begin_fields)

lemma session_snoc:
  "session stored initialMessages (calls @ [c]) =
     run_call initialMessages (session stored initialMessages calls) c"
  by (simp add: session_def)

lemma failed_turns_snoc:
  "failed_turns (calls @ [SendMessage text (Inl err)]) = Suc (failed_turns calls)"
  "failed_turns (calls @ [SendMessage text (Inr answer)]) = failed_turns calls"
  "failed_turns (calls @ [ResetChat]) = 0"
  "failed_turns (calls @ [SetModelOverride name]) = failed_turns calls"
  by (simp_all add: failed_turns_def)

lemma session_invariant:
  assumes "even (length initialMessages)"
    and "case stored of None \<Rightarrow> True | Some saved \<Rightarrow> even (length saved)"
  shows "\<not> isLoading (session stored initialMessages calls) \<and>
     (even (length (messages (session stored initialMessages calls))) =
      even (failed_turns calls))"
proof (induction calls rule: rev_induct)
  case Nil
  from assms show ?case
    by (simp add: session_def failed_turns_def initial_state_def split: option.splits)
next
  case (snoc c calls)
  show ?case
  proof (cases c)
    case (SendMessage msg response)
    show ?thesis
    proof (cases response)
      case (Inl err)
      with SendMessage snoc show ?thesis
        by (simp add: session_snoc failed_turns_snoc sendMessage_settle_with_rejected
            sendMessage_begin_fields)
    next
      case (Inr answer)
      with SendMessage snoc show ?thesis
        by (simp add: session_snoc failed_turns_snoc sendMessage_settle_with_resolved
            sendMessage_begin_fields)
    qed
  next
    case ResetChat
    with assms(1) snoc show ?thesis
      by (simp add: session_snoc failed_turns_snoc resetChat_def)
  next
    case (SetModelOverride name)
    with snoc show ?thesis
      by (simp add: session_snoc failed_turns_snoc)
  qed
qed

text \<open>
  C8 says that in every reachable state the transcript has even length after a completed turn
  and odd length while a turn is in flight or after a failed one. The hook starts a call of
  \<open>sendMessage\<close> whenever it is asked to: with two calls started one behind the other on the
  empty transcript, a turn is in flight and the length is 2. And after a failed turn followed
  by a successful one the session is idle without an error, with a transcript of length 3.
\<close>

theorem turn_parity_counterexample:
  "isLoading (sendMessage_begin ''What is whole life insurance?''
     (sendMessage_begin ''What is term life insurance?'' (initial_state None []))) \<and>
   length (messages (sendMessage_begin ''What is whole life insurance?''
     (sendMessage_begin ''What is term life insurance?'' (initial_state None [])))) = 2 \<and>
   \<not> isLoading (session None []
     [SendMessage ''error'' (Inl (Error ''Mock error'')),
      SendMessage ''Hello again'' (Inr ''Hello! How can I help?'')]) \<and>
   error (session None []
     [SendMessage ''error'' (Inl (Error ''Mock error'')),
      SendMessage ''Hello again'' (Inr ''Hello! How can I help?'')]) = None \<and>
   length (messages (session None []
     [SendMessage ''error'' (Inl (Error ''Mock error'')),
      SendMessage ''Hello again'' (Inr ''Hello! How can I help?'')])) = 3"
  by (simp add: session_def sendMessage_begin_fields sendMessage_settle_with_resolved
      sendMessage_settle_with_rejected initial_state_def)

text \<open>
  C8, amended: in a session whose calls of \<open>sendMessage\<close>, \<open>resetChat\<close> and \<open>setModelOverride\<close>
  follow one another, from a stored and an initial transcript of even length, no turn is in
  flight between the calls, and the length of the transcript is even exactly when the number
  of failed turns since the start or the last reset is even. A further turn has, while it is
  in flight, appended the user message; when it succeeds it has appended the user message and
  then the assistant message, and the error is \<open>null\<close>; when it fails it has appended the user
  message only, and the error is set. So as long as no turn has failed, the length is even
  after a completed turn, odd while a turn is in flight, and odd after the failed turn.
\<close>

theorem turn_parity:
  assumes "even (length initialMessages)"
    and "case stored of None \<Rightarrow> True | Some saved \<Rightarrow> even (length saved)"
  shows
    "(let s = session stored initialMessages calls;
          asked = \<lparr>content = text, role = User, msg_category = None, msg_suggestions = None\<rparr>;
          answered = \<lparr>content = answer, role = Assistant,
             msg_category = Some (categorizeQuestion text),
             msg_suggestions = Some (generateFollowUpQuestions (categorizeQuestion text) text)\<rparr>;
          in_flight = sendMessage_begin text s;
          succeeded = sendMessage_settle_with (Inr answer) text in_flight;
          failed = sendMessage_settle_with (Inl err) text in_flight
      in \<not> isLoading s \<and>
         (even (length (messages s)) = even (failed_turns calls)) \<and>
         isLoading in_flight \<and> messages in_flight = messages s @ [asked] \<and>
         \<not> isLoading succeeded \<and> messages succeeded = messages s @ [asked, answered] \<and>
         error succeeded = None \<and>
         \<not> isLoading failed \<and> messages failed = messages s @ [asked] \<and>
         error failed \<noteq> None \<and>
         (failed_turns calls = 0 \<longrightarrow>
            even (length (messages s)) \<and> odd (length (messages in_flight)) \<and>
            even (length (messages succeeded)) \<and> odd (length (messages failed))))"
proof -
  from session_invariant [OF assms, of calls]
  have "\<not> isLoading (session stored initialMessages calls)"
    and "even (length (messages (session stored initialMessages calls))) =
      even (failed_turns calls)"
    by blast+
  then show ?thesis
    by (simp add: Let_def sendMessage_begin_fields sendMessage_settle_with_resolved
        sendMessage_settle_with_rejected)
qed

theorem turn_parity_witness:
  "length (messages (session None []
     [SendMessage ''What is term life insurance?''
        (Inr ''Term life insurance covers a fixed period.'')])) = 2 \<and>
   odd (length (messages (sendMessage_begin ''How much does it cost?''
     (session None []
       [SendMessage ''What is term life insurance?''
          (Inr ''Term life insurance covers a fixed period.'')])))) \<and>
   even (length (messages (sendMessage_settle_with (Inr ''That depends on your age.'')
     ''How much does it cost?''
     (sendMessage_begin ''How much does it cost?''
       (session None []
         [SendMessage ''What is term life insurance?''
            (Inr ''Term life insurance covers a fixed period.'')]))))) \<and>
   odd (length (messages (sendMessage_settle_with (Inl (Error ''Mock error''))
     ''How much does it cost?''
     (sendMessage_begin ''How much does it cost?''
       (session None []
         [SendMessage ''What is term life insurance?''
            (Inr ''Term life insurance covers a fixed period.'')]))))) \<and>
   error (sendMessage_settle_with (Inl (Error ''Mock error''))
     ''How much does it cost?''
     (sendMessage_begin ''How much does it cost?''
       (session None []
         [SendMessage ''What is term life insurance?''
            (Inr ''Term life insurance covers a fixed period.'')]))) \<noteq> None"
proof -
  let ?calls = "[SendMessage ''What is term life insurance?''
        (Inr ''Term life insurance covers a fixed period.'')]"
  have e: "even (length ([] :: InsuranceMessage list))" by simp
  have st: "case (None :: InsuranceMessage list option) of None \<Rightarrow> True
      | Some saved \<Rightarrow> even (length saved)" by simp
  have f: "failed_turns ?calls = 0" by (simp add: failed_turns_def)
  have l: "length (messages (session None [] ?calls)) = 2"
    by (simp add: session_def sendMessage_begin_fields sendMessage_settle_with_resolved
        initial_state_def)
  from turn_parity [OF e st, of ?calls "''How much does it cost?''"
      "''That depends on your age.''" "Error ''Mock error''"] f l
  show ?thesis
    by (simp add: Let_def)
qed

end
